theory Spec2Isabelle
  imports Complex_Main
begin

section \<open>Python values, exceptions and objects\<close>

text \<open>
  The notebook \<^verbatim>\<open>Transformer-checkpoint.ipynb\<close> defines six \<^verbatim>\<open>nn.Module\<close> classes.
  Their methods are embedded as HOL functions. Python floats are modelled as real
  numbers (no rounding, no \<^verbatim>\<open>inf\<close>, no \<^verbatim>\<open>nan\<close>: where LayerNormalization would
  compute \<^verbatim>\<open>nan\<close> or \<^verbatim>\<open>inf\<close>, for instance the standard deviation of a single
  element, the model stops with \<open>NotModelled\<close>). Every \<^verbatim>\<open>raise\<close> of the Python run
  time is a value \<open>Inl e\<close>.
\<close>

datatype error =
    AttributeError string
  | NameError string
  | TypeError string
  | ValueError string
  | RuntimeError string
  | IndexError string
  | AssertionError string
  | ZeroDivisionError string
  | NotModelled string

text \<open>
  A tensor is its shape and its elements in row-major (logical) order. Strides and
  storage sharing are not modelled: \<^verbatim>\<open>contiguous()\<close> is the identity on values.
\<close>

record tensor =
  shape :: "nat list"
  data :: "real list"

text \<open>
  The values an attribute or a global name can hold. \<open>LinearV weight bias\<close> is an
  \<^verbatim>\<open>nn.Linear\<close> (weight of shape (out, in)), \<open>DropoutV p training\<close> an \<^verbatim>\<open>nn.Dropout\<close>,
  \<open>ObjV cls attrs\<close> an instance of a class of the notebook with its attribute
  dictionary, \<open>GlobalObjV name\<close> an imported module or a class object.
\<close>

datatype pyval =
    NoneV
  | IntV int
  | FloatV real
  | TensorV tensor
  | LinearV tensor tensor
  | DropoutV real bool
  | ObjV string "string \<Rightarrow> pyval option"
  | GlobalObjV string

type_synonym pyobj = "string \<Rightarrow> pyval option"

definition bindE :: "error + 'a \<Rightarrow> ('a \<Rightarrow> error + 'b) \<Rightarrow> error + 'b" where
  "bindE m f = (case m of Inl e \<Rightarrow> Inl e | Inr v \<Rightarrow> f v)"

definition getattr :: "pyobj \<Rightarrow> string \<Rightarrow> error + pyval" where
  "getattr self name = (case self name of None \<Rightarrow> Inl (AttributeError name) | Some v \<Rightarrow> Inr v)"

definition lookup_name :: "pyobj \<Rightarrow> string \<Rightarrow> error + pyval" where
  "lookup_name g name = (case g name of None \<Rightarrow> Inl (NameError name) | Some v \<Rightarrow> Inr v)"

text \<open>
  The names the notebook's cells bind at module level: three imports and six classes.
  No cell binds \<^verbatim>\<open>mask\<close>, \<^verbatim>\<open>d_k\<close> or \<^verbatim>\<open>view\<close>.
\<close>

definition notebook_globals :: pyobj where
  "notebook_globals =
     [''torch'' \<mapsto> GlobalObjV ''torch'',
      ''nn'' \<mapsto> GlobalObjV ''torch.nn'',
      ''math'' \<mapsto> GlobalObjV ''math'',
      ''InputEmbeddings'' \<mapsto> GlobalObjV ''InputEmbeddings'',
      ''PositionalEncoding'' \<mapsto> GlobalObjV ''PositionalEncoding'',
      ''LayerNormalization'' \<mapsto> GlobalObjV ''LayerNormalization'',
      ''FeedForwardBlock'' \<mapsto> GlobalObjV ''FeedForwardBlock'',
      ''MultiHeadAttentionBlock'' \<mapsto> GlobalObjV ''MultiHeadAttentionBlock'',
      ''ResidualConnection'' \<mapsto> GlobalObjV ''ResidualConnection'']"

section \<open>The tensor operations the notebook calls\<close>

subsection \<open>Row-major indexing and broadcasting\<close>

fun ravel :: "nat list \<Rightarrow> nat list \<Rightarrow> nat" where
  "ravel (d # ds) (i # js) = i * prod_list ds + ravel ds js"
| "ravel _ _ = 0"

fun unravel :: "nat list \<Rightarrow> nat \<Rightarrow> nat list" where
  "unravel [] n = []"
| "unravel (d # ds) n = (n div prod_list ds) # unravel ds (n mod prod_list ds)"

text \<open>Shapes are aligned at their last dimension; a dimension of size 1 stretches.\<close>

fun broadcast_rev :: "nat list \<Rightarrow> nat list \<Rightarrow> nat list option" where
  "broadcast_rev [] ys = Some ys"
| "broadcast_rev xs [] = Some xs"
| "broadcast_rev (x # xs) (y # ys) =
     (if x = y then map_option ((#) x) (broadcast_rev xs ys)
      else if x = 1 then map_option ((#) y) (broadcast_rev xs ys)
      else if y = 1 then map_option ((#) x) (broadcast_rev xs ys)
      else None)"

definition broadcast_shapes :: "nat list \<Rightarrow> nat list \<Rightarrow> error + nat list" where
  "broadcast_shapes a b =
     (case broadcast_rev (rev a) (rev b) of
        None \<Rightarrow> Inl (RuntimeError ''shapes are not broadcastable'')
      | Some r \<Rightarrow> Inr (rev r))"

definition bidx :: "nat list \<Rightarrow> nat list \<Rightarrow> nat list" where
  "bidx sh idx = map2 (\<lambda>d i. if d = 1 then 0 else i) sh (drop (length idx - length sh) idx)"

definition at_bc :: "tensor \<Rightarrow> nat list \<Rightarrow> real" where
  "at_bc t idx = data t ! ravel (shape t) (bidx (shape t) idx)"

definition tensor_binop :: "(real \<Rightarrow> real \<Rightarrow> real) \<Rightarrow> tensor \<Rightarrow> tensor \<Rightarrow> error + tensor" where
  "tensor_binop f a b =
     bindE (broadcast_shapes (shape a) (shape b)) (\<lambda>sh.
       Inr \<lparr>shape = sh,
            data = map (\<lambda>n. f (at_bc a (unravel sh n)) (at_bc b (unravel sh n)))
                       [0..<prod_list sh]\<rparr>)"

definition tensor_map :: "(real \<Rightarrow> real) \<Rightarrow> tensor \<Rightarrow> tensor" where
  "tensor_map f t = \<lparr>shape = shape t, data = map f (data t)\<rparr>"

text \<open>
  Python arithmetic with a tensor on one side: the other operand is a tensor
  (broadcast), or a Python number (applied to every element).
\<close>

definition arith_vt :: "(real \<Rightarrow> real \<Rightarrow> real) \<Rightarrow> pyval \<Rightarrow> tensor \<Rightarrow> error + tensor" where
  "arith_vt f v t =
     (case v of
        TensorV a \<Rightarrow> tensor_binop f a t
      | FloatV r \<Rightarrow> Inr (tensor_map (\<lambda>e. f r e) t)
      | IntV i \<Rightarrow> Inr (tensor_map (\<lambda>e. f (real_of_int i) e) t)
      | _ \<Rightarrow> Inl (TypeError ''unsupported operand type(s)''))"

definition arith_tv :: "(real \<Rightarrow> real \<Rightarrow> real) \<Rightarrow> tensor \<Rightarrow> pyval \<Rightarrow> error + tensor" where
  "arith_tv f t v =
     (case v of
        TensorV b \<Rightarrow> tensor_binop f t b
      | FloatV r \<Rightarrow> Inr (tensor_map (\<lambda>e. f e r) t)
      | IntV i \<Rightarrow> Inr (tensor_map (\<lambda>e. f e (real_of_int i)) t)
      | _ \<Rightarrow> Inl (TypeError ''unsupported operand type(s)''))"

subsection \<open>Reductions over the last dimension\<close>

text \<open>The innermost vectors of a tensor, in row-major order.\<close>

definition rows :: "tensor \<Rightarrow> real list list" where
  "rows t =
     (case shape t of
        [] \<Rightarrow> [data t]
      | _ \<Rightarrow> map (\<lambda>r. take (last (shape t)) (drop (r * last (shape t)) (data t)))
                 [0..<prod_list (butlast (shape t))])"

definition reduce_last_keepdim :: "(real list \<Rightarrow> real) \<Rightarrow> tensor \<Rightarrow> tensor" where
  "reduce_last_keepdim f t =
     \<lparr>shape = (case shape t of [] \<Rightarrow> [] | _ \<Rightarrow> butlast (shape t) @ [1]),
      data = map f (rows t)\<rparr>"

definition mean_vec :: "real list \<Rightarrow> real" where
  "mean_vec v = sum_list v / real (length v)"

text \<open>\<^verbatim>\<open>Tensor.std\<close> defaults to the unbiased estimator: it divides by \<open>n - 1\<close>.\<close>

definition std_vec :: "real list \<Rightarrow> real" where
  "std_vec v = sqrt (sum_list (map (\<lambda>e. (e - mean_vec v)\<^sup>2) v) / (real (length v) - 1))"

text \<open>
  Floating point has values that the real numbers lack: torch's mean of an empty row
  is \<open>nan\<close>, its standard deviation of a row of fewer than two elements is \<open>nan\<close>,
  and a division by zero gives \<open>inf\<close> or \<open>nan\<close>. The tensors of this model hold
  real numbers, so the three operations below stop with \<open>NotModelled\<close> on such
  inputs instead of inventing a number; \<open>mean_vec\<close> and \<open>std_vec\<close> are only ever
  applied to rows on which they are torch's values.
\<close>

definition tensor_mean_last :: "tensor \<Rightarrow> error + tensor" where
  "tensor_mean_last t =
     (if [] \<in> set (rows t) then Inl (NotModelled ''mean of an empty row is nan'')
      else Inr (reduce_last_keepdim mean_vec t))"

definition tensor_std_last :: "tensor \<Rightarrow> error + tensor" where
  "tensor_std_last t =
     (if \<exists>v \<in> set (rows t). length v < 2
      then Inl (NotModelled ''std of fewer than two elements is nan'')
      else Inr (reduce_last_keepdim std_vec t))"

definition tensor_div :: "tensor \<Rightarrow> tensor \<Rightarrow> error + tensor" where
  "tensor_div num den =
     bindE (tensor_binop (/) num den) (\<lambda>quot.
       if 0 \<in> set (data den) \<and> data quot \<noteq> []
       then Inl (NotModelled ''division by zero is inf or nan'')
       else Inr quot)"

section \<open>LayerNormalization\<close>

definition LayerNormalization_init :: "real \<Rightarrow> pyobj" where
  "LayerNormalization_init eps =
     [''eps'' \<mapsto> FloatV eps,
      ''alpha'' \<mapsto> TensorV \<lparr>shape = [1], data = [1]\<rparr>,
      ''bias'' \<mapsto> TensorV \<lparr>shape = [1], data = [0]\<rparr>]"

text \<open>The default of the parameter \<^verbatim>\<open>eps: float = 10**-6\<close>.\<close>

definition eps_default :: real where
  "eps_default = 1 / 10 ^ 6"

definition LayerNormalization_forward :: "pyobj \<Rightarrow> tensor \<Rightarrow> error + tensor" where
  "LayerNormalization_forward self x =
     bindE (tensor_mean_last x) (\<lambda>mean.
     bindE (tensor_std_last x) (\<lambda>std.
     bindE (getattr self ''alpha'') (\<lambda>alpha.
     bindE (tensor_binop (-) x mean) (\<lambda>centred.
     bindE (arith_vt (*) alpha centred) (\<lambda>num.
     bindE (getattr self ''eps'') (\<lambda>eps.
     bindE (arith_tv (+) std eps) (\<lambda>den.
     bindE (tensor_div num den) (\<lambda>quot.
     bindE (getattr self ''bias'') (\<lambda>bias.
     arith_tv (+) quot bias)))))))))"

subsection \<open>The specification's wording\<close>

text \<open>
  The specification describes the result on one innermost vector \<open>v\<close> of length
  \<open>d_model\<close>: \<open>alpha * (v - mean) / (std + eps) + bias\<close>, elementwise, where
  \<open>mean\<close> is the average of the elements of \<open>v\<close> and \<open>std\<close> their sample
  standard deviation, the square root of the sum of squared deviations from the
  average divided by \<open>d_model - 1\<close>. The three definitions below follow these
  words and use nothing of the model of the code above.
\<close>

definition average :: "real list \<Rightarrow> real" where
  "average v = (\<Sum>i<length v. v ! i) / real (length v)"

definition sample_std :: "real list \<Rightarrow> real" where
  "sample_std v = sqrt ((\<Sum>i<length v. (v ! i - average v)\<^sup>2) / real (length v - 1))"

definition layernorm_vec :: "real \<Rightarrow> real \<Rightarrow> real \<Rightarrow> real list \<Rightarrow> real list" where
  "layernorm_vec alpha bias eps v =
     map (\<lambda>e. alpha * (e - average v) / (sample_std v + eps) + bias) v"

section \<open>More tensor operations\<close>

subsection \<open>Shapes, transposition and views\<close>

definition shape_at :: "tensor \<Rightarrow> nat \<Rightarrow> error + nat" where
  "shape_at t i =
     (if i < length (shape t) then Inr (shape t ! i)
      else Inl (IndexError ''tuple index out of range''))"

definition shape_last :: "tensor \<Rightarrow> error + nat" where
  "shape_last t =
     (if shape t = [] then Inl (IndexError ''tuple index out of range'')
      else Inr (last (shape t)))"

text \<open>A dimension argument counts from the end when it is negative.\<close>

definition norm_dim :: "nat \<Rightarrow> int \<Rightarrow> error + nat" where
  "norm_dim rank d =
     (if - int rank \<le> d \<and> d < int rank
      then Inr (nat (if d < 0 then d + int rank else d))
      else Inl (IndexError ''Dimension out of range''))"

definition swap_at :: "nat \<Rightarrow> nat \<Rightarrow> 'a list \<Rightarrow> 'a list" where
  "swap_at i j xs = (xs[i := xs ! j])[j := xs ! i]"

definition transpose_dims :: "tensor \<Rightarrow> nat \<Rightarrow> nat \<Rightarrow> tensor" where
  "transpose_dims t i j =
     \<lparr>shape = swap_at i j (shape t),
      data = map (\<lambda>n. data t ! ravel (shape t) (swap_at i j (unravel (swap_at i j (shape t)) n)))
                 [0..<prod_list (swap_at i j (shape t))]\<rparr>"

definition transpose_t :: "tensor \<Rightarrow> int \<Rightarrow> int \<Rightarrow> error + tensor" where
  "transpose_t t d0 d1 =
     bindE (norm_dim (length (shape t)) d0) (\<lambda>i.
     bindE (norm_dim (length (shape t)) d1) (\<lambda>j.
       Inr (transpose_dims t i j)))"

definition contiguous :: "tensor \<Rightarrow> tensor" where
  "contiguous t = t"

text \<open>
  The sizes of a \<^verbatim>\<open>view\<close>, read from left to right as torch does: a size \<open>-1\<close> is to
  be inferred (at most one), any other negative size is refused, and the remaining
  sizes are multiplied. \<open>scan_sizes\<close> returns whether a \<open>-1\<close> was seen and the product.
\<close>

fun scan_sizes :: "int list \<Rightarrow> bool \<Rightarrow> nat \<Rightarrow> error + bool \<times> nat" where
  "scan_sizes [] seen known = Inr (seen, known)"
| "scan_sizes (s # ss) seen known =
     (if s = - 1 then
        (if seen then Inl (RuntimeError ''only one dimension can be inferred'')
         else scan_sizes ss True known)
      else if 0 \<le> s then scan_sizes ss seen (known * nat s)
      else Inl (RuntimeError ''invalid shape dimension''))"

text \<open>
  The inferred size is the number of elements divided by the product of the others;
  torch refuses to infer it for a tensor of 0 elements when that product is 0.
\<close>

definition infer_size :: "int list \<Rightarrow> nat \<Rightarrow> error + nat list" where
  "infer_size sizes n =
     bindE (scan_sizes sizes False 1) (\<lambda>(seen, known).
       if n = known \<or> (seen \<and> 0 < known \<and> n mod known = 0) then
         (if seen then
            (if known = 0
               then Inl (RuntimeError ''cannot reshape tensor of 0 elements: the unspecified dimension size -1 is ambiguous'')
             else Inr (map (\<lambda>s. if s = - 1 then n div known else nat s) sizes))
          else Inr (map nat sizes))
       else Inl (RuntimeError ''shape is invalid for input size''))"

definition tensor_view :: "tensor \<Rightarrow> int list \<Rightarrow> error + tensor" where
  "tensor_view t sizes =
     bindE (infer_size sizes (prod_list (shape t))) (\<lambda>sh. Inr \<lparr>shape = sh, data = data t\<rparr>)"

fun int_args :: "pyval list \<Rightarrow> error + int list" where
  "int_args [] = Inr []"
| "int_args (IntV i # vs) = bindE (int_args vs) (\<lambda>r. Inr (i # r))"
| "int_args (v # vs) = Inl (TypeError ''view(): argument size must be tuple of ints'')"

definition view_py :: "tensor \<Rightarrow> pyval list \<Rightarrow> error + tensor" where
  "view_py t args = bindE (int_args args) (\<lambda>sizes. tensor_view t sizes)"

definition unsqueeze :: "tensor \<Rightarrow> nat \<Rightarrow> tensor" where
  "unsqueeze t k = \<lparr>shape = take k (shape t) @ [1] @ drop k (shape t), data = data t\<rparr>"

definition zeros :: "nat list \<Rightarrow> tensor" where
  "zeros sh = \<lparr>shape = sh, data = replicate (prod_list sh) 0\<rparr>"

text \<open>The attributes of \<^verbatim>\<open>torch.Tensor\<close> that the notebook's code reads.\<close>

definition tensor_attributes :: "string list" where
  "tensor_attributes =
     [''shape'', ''mean'', ''std'', ''float'', ''unsqueeze'', ''requires_grad_'', ''view'',
      ''transpose'', ''contiguous'', ''softmax'', ''masked_fill_'']"

definition tensor_getattr :: "string \<Rightarrow> error + unit" where
  "tensor_getattr name =
     (if name \<in> set tensor_attributes then Inr () else Inl (AttributeError name))"

subsection \<open>Matrix product, softmax, masking\<close>

text \<open>Both operands of rank at least 2: batch dimensions broadcast.\<close>

definition matmul_nd :: "tensor \<Rightarrow> tensor \<Rightarrow> error + tensor" where
  "matmul_nd a b =
     (let ra = length (shape a); rb = length (shape b);
          ba = take (ra - 2) (shape a); bb = take (rb - 2) (shape b);
          m = shape a ! (ra - 2); n = shape a ! (ra - 1);
          n' = shape b ! (rb - 2); p = shape b ! (rb - 1)
      in if n = n' then
           bindE (broadcast_shapes ba bb) (\<lambda>batch.
             Inr \<lparr>shape = batch @ [m, p],
                  data = map (\<lambda>l.
                      let idx = unravel (batch @ [m, p]) l;
                          bi = take (length batch) idx;
                          i = idx ! length batch;
                          j = idx ! (length batch + 1)
                      in sum_list (map (\<lambda>k.
                            data a ! ravel (shape a) (bidx ba bi @ [i, k]) *
                            data b ! ravel (shape b) (bidx bb bi @ [k, j])) [0..<n]))
                    [0..<prod_list (batch @ [m, p])]\<rparr>)
         else Inl (RuntimeError ''shapes cannot be multiplied''))"

definition matmul :: "tensor \<Rightarrow> tensor \<Rightarrow> error + tensor" where
  "matmul a b =
     (if shape a = [] \<or> shape b = []
        then Inl (RuntimeError ''both arguments to matmul need to be at least 1D'')
      else if length (shape a) = 1 \<and> length (shape b) = 1 then
        bindE (matmul_nd \<lparr>shape = 1 # shape a, data = data a\<rparr> \<lparr>shape = shape b @ [1], data = data b\<rparr>)
          (\<lambda>c. Inr \<lparr>shape = [], data = data c\<rparr>)
      else if length (shape a) = 1 then
        bindE (matmul_nd \<lparr>shape = 1 # shape a, data = data a\<rparr> b)
          (\<lambda>c. Inr \<lparr>shape = butlast (butlast (shape c)) @ [last (shape c)], data = data c\<rparr>)
      else if length (shape b) = 1 then
        bindE (matmul_nd a \<lparr>shape = shape b @ [1], data = data b\<rparr>)
          (\<lambda>c. Inr \<lparr>shape = butlast (shape c), data = data c\<rparr>)
      else matmul_nd a b)"

definition softmax_vec :: "real list \<Rightarrow> real list" where
  "softmax_vec v = map (\<lambda>e. exp e / sum_list (map exp v)) v"

definition softmax_last :: "tensor \<Rightarrow> tensor" where
  "softmax_last t = \<lparr>shape = shape t, data = concat (map softmax_vec (rows t))\<rparr>"

text \<open>
  \<^verbatim>\<open>t.masked_fill_(mask == 0, v)\<close>: in place, so the mask must broadcast to the
  shape of \<open>t\<close>; an element is overwritten where the mask is 0.
\<close>

definition masked_fill :: "tensor \<Rightarrow> tensor \<Rightarrow> real \<Rightarrow> error + tensor" where
  "masked_fill t m v =
     bindE (broadcast_shapes (shape t) (shape m)) (\<lambda>sh.
       if sh = shape t then
         Inr \<lparr>shape = shape t,
              data = map (\<lambda>n. if at_bc m (unravel sh n) = 0 then v else data t ! n)
                         [0..<prod_list sh]\<rparr>
       else Inl (RuntimeError ''output shape does not match the broadcast shape''))"

definition masked_fill_py :: "tensor \<Rightarrow> pyval \<Rightarrow> real \<Rightarrow> error + tensor" where
  "masked_fill_py t mask_v v =
     (case mask_v of
        TensorV m \<Rightarrow> masked_fill t m v
      | _ \<Rightarrow> Inl (TypeError ''masked_fill_(): argument mask must be Tensor''))"

subsection \<open>Library modules: Linear and Dropout\<close>

text \<open>
  \<^verbatim>\<open>nn.Linear(in_features, out_features)\<close>. Its initial weights come from an external
  initialiser, here the function \<open>ini\<close>.
\<close>

definition nn_Linear :: "(nat \<Rightarrow> real) \<Rightarrow> int \<Rightarrow> int \<Rightarrow> error + pyval" where
  "nn_Linear ini in_features out_features =
     (if in_features < 0 \<or> out_features < 0
        then Inl (RuntimeError ''Trying to create tensor with negative dimension'')
      else Inr (LinearV
        \<lparr>shape = [nat out_features, nat in_features],
         data = map ini [0..<nat out_features * nat in_features]\<rparr>
        \<lparr>shape = [nat out_features],
         data = map (\<lambda>i. ini (nat out_features * nat in_features + i)) [0..<nat out_features]\<rparr>))"

definition linear_forward :: "tensor \<Rightarrow> tensor \<Rightarrow> tensor \<Rightarrow> error + tensor" where
  "linear_forward w b x =
     bindE (transpose_t w 0 1) (\<lambda>wt.
     bindE (matmul x wt) (\<lambda>y.
     tensor_binop (+) y b))"

definition nn_Dropout :: "real \<Rightarrow> error + pyval" where
  "nn_Dropout p =
     (if p < 0 \<or> 1 < p
        then Inl (ValueError ''dropout probability has to be between 0 and 1'')
      else Inr (DropoutV p True))"

text \<open>
  Dropout in training mode keeps an element with probability \<open>1 - p\<close> and scales it by
  \<open>1 / (1 - p)\<close>. The random draws are an input: \<open>us i\<close> is the uniform sample in
  \<open>[0, 1)\<close> drawn for element \<open>i\<close>. In evaluation mode dropout is the identity.
\<close>

definition F_dropout :: "real \<Rightarrow> bool \<Rightarrow> (nat \<Rightarrow> real) \<Rightarrow> tensor \<Rightarrow> tensor" where
  "F_dropout p training us x =
     (if training
        then \<lparr>shape = shape x,
              data = map (\<lambda>i. if us i < 1 - p then data x ! i / (1 - p) else 0)
                         [0..<length (data x)]\<rparr>
      else x)"

text \<open>
  Calling an attribute value. Of the notebook's own classes only LayerNormalization is
  ever stored in an attribute; calling another instance, a class or an imported module
  is outside this model (\<open>NotModelled\<close>).
\<close>

definition call_module :: "pyval \<Rightarrow> (nat \<Rightarrow> real) \<Rightarrow> tensor \<Rightarrow> error + tensor" where
  "call_module m us x =
     (case m of
        LinearV w b \<Rightarrow> linear_forward w b x
      | DropoutV p training \<Rightarrow> Inr (F_dropout p training us x)
      | ObjV cls attrs \<Rightarrow>
          (if cls = ''LayerNormalization'' then LayerNormalization_forward attrs x
           else Inl (NotModelled cls))
      | GlobalObjV name \<Rightarrow> Inl (NotModelled name)
      | _ \<Rightarrow> Inl (TypeError ''object is not callable''))"

definition relu :: "tensor \<Rightarrow> tensor" where
  "relu t = tensor_map (max 0) t"

section \<open>PositionalEncoding\<close>

text \<open>\<^verbatim>\<open>torch.arange(0, n, dtype=torch.float)\<close> and \<^verbatim>\<open>torch.arange(0, n, 2).float()\<close>.\<close>

definition arange :: "nat \<Rightarrow> tensor" where
  "arange n = \<lparr>shape = [n], data = map real [0..<n]\<rparr>"

definition arange_step2 :: "nat \<Rightarrow> tensor" where
  "arange_step2 n =
     \<lparr>shape = [(n + 1) div 2], data = map (\<lambda>i. real (2 * i)) [0..<(n + 1) div 2]\<rparr>"

text \<open>
  \<^verbatim>\<open>pe[:, start::2] = vals\<close> on a matrix \<open>pe\<close>: the selected columns are \<open>start\<close>,
  \<open>start + 2\<close>, ...; \<open>vals\<close> must broadcast to the shape of the selection.
\<close>

definition assign_cols :: "tensor \<Rightarrow> nat \<Rightarrow> tensor \<Rightarrow> error + tensor" where
  "assign_cols pe start vals =
     (let r = shape pe ! 0; c = shape pe ! 1;
          k = length (filter (\<lambda>j. start \<le> j \<and> (j - start) mod 2 = 0) [0..<c])
      in bindE (broadcast_shapes [r, k] (shape vals)) (\<lambda>sh.
           if sh = [r, k] then
             Inr \<lparr>shape = shape pe,
                  data = map (\<lambda>n.
                      if start \<le> n mod c \<and> (n mod c - start) mod 2 = 0
                      then at_bc vals [n div c, (n mod c - start) div 2]
                      else data pe ! n) [0..<r * c]\<rparr>
           else Inl (RuntimeError ''shape mismatch in slice assignment'')))"

text \<open>
  The constructor, statement by statement. \<open>pe_table\<close> is the local variable
  \<^verbatim>\<open>pe\<close> after the two slice assignments (lines 83 to 91); the next statement calls
  \<^verbatim>\<open>pe.unsqueece(0)\<close>, an attribute no tensor has.
\<close>

definition div_term :: "int \<Rightarrow> tensor" where
  "div_term d_model =
     tensor_map exp
       (tensor_map (\<lambda>e. e * (ln 10000 / real_of_int d_model)) (arange_step2 (nat d_model)))"

definition pe_table :: "int \<Rightarrow> int \<Rightarrow> error + tensor" where
  "pe_table d_model seq_len =
     (if seq_len < 0 \<or> d_model < 0
        then Inl (RuntimeError ''Trying to create tensor with negative dimension'')
      else if d_model = 0 then Inl (ZeroDivisionError ''float division by zero'')
      else
        (let pe = zeros [nat seq_len, nat d_model];
             position = unsqueeze (arange (nat seq_len)) 1
         in bindE (tensor_binop (*) position (div_term d_model)) (\<lambda>angle.
            bindE (assign_cols pe 0 (tensor_map sin angle)) (\<lambda>pe.
            bindE (tensor_binop (*) position (div_term d_model)) (\<lambda>angle.
            assign_cols pe 1 (tensor_map cos angle))))))"

definition PositionalEncoding_init :: "int \<Rightarrow> int \<Rightarrow> real \<Rightarrow> error + pyobj" where
  "PositionalEncoding_init d_model seq_len dropout =
     (let self = [''d_model'' \<mapsto> IntV d_model, ''seq_len'' \<mapsto> IntV seq_len,
                  ''dropout'' \<mapsto> FloatV dropout]
      in bindE (pe_table d_model seq_len) (\<lambda>pe.
         bindE (tensor_getattr ''unsqueece'') (\<lambda>_.
         Inr (self(''pe'' \<mapsto> TensorV (unsqueeze pe 0))))))"

text \<open>\<^verbatim>\<open>self.pe[:, :n, :]\<close>.\<close>

definition slice_dim1 :: "pyval \<Rightarrow> nat \<Rightarrow> error + tensor" where
  "slice_dim1 v n =
     (case v of
        TensorV p \<Rightarrow>
          (if length (shape p) < 3 then Inl (IndexError ''too many indices for tensor'')
           else
             (let s0 = shape p ! 0; s1 = shape p ! 1; rest = prod_list (drop 2 (shape p));
                  m = min n s1
              in Inr \<lparr>shape = s0 # m # drop 2 (shape p),
                      data = concat (map (\<lambda>i. take (m * rest) (drop (i * s1 * rest) (data p)))
                                         [0..<s0])\<rparr>))
      | _ \<Rightarrow> Inl (TypeError ''object is not subscriptable''))"

definition PositionalEncoding_forward :: "pyobj \<Rightarrow> (nat \<Rightarrow> real) \<Rightarrow> tensor \<Rightarrow> error + tensor" where
  "PositionalEncoding_forward self us x =
     bindE (getattr self ''pe'') (\<lambda>pe.
     bindE (shape_at x 1) (\<lambda>n.
     bindE (slice_dim1 pe n) (\<lambda>sl.
     bindE (tensor_binop (+) x sl) (\<lambda>x.
     bindE (getattr self ''dropout'') (\<lambda>dropout.
     call_module dropout us x)))))"

section \<open>FeedForwardBlock\<close>

text \<open>
  The constructor stores its layers under \<^verbatim>\<open>Linear_1\<close> and \<^verbatim>\<open>Linear_2\<close>; \<^verbatim>\<open>forward\<close>
  reads \<^verbatim>\<open>linear_1\<close> and \<^verbatim>\<open>linear_2\<close>. The callee \<^verbatim>\<open>self.linear_2\<close> is evaluated first.
\<close>

definition FeedForwardBlock_init ::
  "(string \<Rightarrow> nat \<Rightarrow> real) \<Rightarrow> int \<Rightarrow> int \<Rightarrow> real \<Rightarrow> error + pyobj" where
  "FeedForwardBlock_init ini d_model d_ff dropout =
     bindE (nn_Linear (ini ''Linear_1'') d_model d_ff) (\<lambda>l1.
     bindE (nn_Dropout dropout) (\<lambda>d.
     bindE (nn_Linear (ini ''Linear_2'') d_ff d_model) (\<lambda>l2.
     Inr [''Linear_1'' \<mapsto> l1, ''dropout'' \<mapsto> d, ''Linear_2'' \<mapsto> l2])))"

definition FeedForwardBlock_forward :: "pyobj \<Rightarrow> (nat \<Rightarrow> real) \<Rightarrow> tensor \<Rightarrow> error + tensor" where
  "FeedForwardBlock_forward self us x =
     bindE (getattr self ''linear_2'') (\<lambda>linear_2.
     bindE (getattr self ''dropout'') (\<lambda>dropout.
     bindE (getattr self ''linear_1'') (\<lambda>linear_1.
     bindE (call_module linear_1 us x) (\<lambda>h.
     bindE (call_module dropout us (relu h)) (\<lambda>h.
     call_module linear_2 us h)))))"

section \<open>MultiHeadAttentionBlock\<close>

text \<open>
  \<^verbatim>\<open>d_model % h\<close> raises ZeroDivisionError for \<open>h = 0\<close>; the \<^verbatim>\<open>assert\<close> (assertions are
  on, Python's default) raises AssertionError. HOL's \<open>mod\<close> and \<open>div\<close> on \<open>int\<close> round
  as Python's \<^verbatim>\<open>%\<close> and \<^verbatim>\<open>//\<close> do.
\<close>

definition MultiHeadAttentionBlock_init ::
  "(string \<Rightarrow> nat \<Rightarrow> real) \<Rightarrow> int \<Rightarrow> int \<Rightarrow> real \<Rightarrow> error + pyobj" where
  "MultiHeadAttentionBlock_init ini d_model h dropout =
     (if h = 0 then Inl (ZeroDivisionError ''integer modulo by zero'')
      else if d_model mod h = 0 then
        bindE (nn_Linear (ini ''w_q'') d_model d_model) (\<lambda>w_q.
        bindE (nn_Linear (ini ''w_k'') d_model d_model) (\<lambda>w_k.
        bindE (nn_Linear (ini ''w_v'') d_model d_model) (\<lambda>w_v.
        bindE (nn_Linear (ini ''w_o'') d_model d_model) (\<lambda>w_o.
        bindE (nn_Dropout dropout) (\<lambda>d.
        Inr [''d_model'' \<mapsto> IntV d_model, ''h'' \<mapsto> IntV h,
             ''d_k'' \<mapsto> IntV (d_model div h),
             ''w_q'' \<mapsto> w_q, ''w_k'' \<mapsto> w_k, ''w_v'' \<mapsto> w_v, ''w_o'' \<mapsto> w_o,
             ''dropout'' \<mapsto> d])))))
      else Inl (AssertionError ''d_model is not divisible by h''))"

text \<open>
  The static method \<^verbatim>\<open>attention(query, key, value, dropout)\<close>. \<^verbatim>\<open>mask\<close> is not among its
  parameters, so the name is looked up in the module's globals \<open>g\<close>.
\<close>

definition attention ::
  "pyobj \<Rightarrow> (nat \<Rightarrow> real) \<Rightarrow> tensor \<Rightarrow> tensor \<Rightarrow> tensor \<Rightarrow> pyval \<Rightarrow> error + tensor \<times> tensor" where
  "attention g us query key_t value_t dropout =
     bindE (shape_last query) (\<lambda>d_k.
     bindE (transpose_t key_t (- 2) (- 1)) (\<lambda>kt.
     bindE (matmul query kt) (\<lambda>qk.
     bindE (Inr (tensor_map (\<lambda>e. e / sqrt (real d_k)) qk)) (\<lambda>attention_scores.
     bindE (lookup_name g ''mask'') (\<lambda>mask_v.
     bindE (if mask_v = NoneV then Inr attention_scores
            else masked_fill_py attention_scores mask_v (- (10 ^ 9))) (\<lambda>attention_scores.
     bindE (Inr (softmax_last attention_scores)) (\<lambda>attention_scores.
     bindE (if dropout = NoneV then Inr attention_scores
            else call_module dropout us attention_scores) (\<lambda>attention_scores.
     bindE (matmul attention_scores value_t) (\<lambda>out.
     Inr (out, attention_scores))))))))))"

text \<open>A call of \<^verbatim>\<open>attention\<close> with positional arguments: it takes exactly four.\<close>

definition call_attention ::
  "pyobj \<Rightarrow> (nat \<Rightarrow> real) \<Rightarrow> pyval list \<Rightarrow> error + tensor \<times> tensor" where
  "call_attention g us args =
     (if length args = 4 then
        (case args of
           [TensorV q, TensorV k, TensorV v, d] \<Rightarrow> attention g us q k v d
         | _ \<Rightarrow> Inl (NotModelled ''attention on arguments that are not tensors''))
      else Inl (TypeError ''attention() takes 4 positional arguments''))"

text \<open>\<^verbatim>\<open>t.view(...).transpose(1, 2)\<close>, the form every head split of \<^verbatim>\<open>forward\<close> has.\<close>

definition split_heads :: "tensor \<Rightarrow> pyval list \<Rightarrow> error + tensor" where
  "split_heads t args = bindE (view_py t args) (\<lambda>u. transpose_t u 1 2)"

definition py_mul :: "pyval \<Rightarrow> pyval \<Rightarrow> error + pyval" where
  "py_mul a b =
     (case (a, b) of
        (IntV i, IntV j) \<Rightarrow> Inr (IntV (i * j))
      | (IntV i, FloatV r) \<Rightarrow> Inr (FloatV (real_of_int i * r))
      | (FloatV r, IntV i) \<Rightarrow> Inr (FloatV (r * real_of_int i))
      | (FloatV r, FloatV q) \<Rightarrow> Inr (FloatV (r * q))
      | (TensorV t, v) \<Rightarrow> map_sum id TensorV (arith_tv (*) t v)
      | (v, TensorV t) \<Rightarrow> map_sum id TensorV (arith_vt (*) v t)
      | _ \<Rightarrow> Inl (TypeError ''unsupported operand type(s)''))"

text \<open>Line 249: \<^verbatim>\<open>query.view(query.shape[0], query.shape[1], self.h, self,d_k).transpose(1, 2)\<close>.\<close>

definition split_query :: "pyobj \<Rightarrow> pyobj \<Rightarrow> tensor \<Rightarrow> error + tensor" where
  "split_query g self query =
     bindE (shape_at query 0) (\<lambda>b.
     bindE (shape_at query 1) (\<lambda>s.
     bindE (getattr self ''h'') (\<lambda>h.
     bindE (lookup_name g ''d_k'') (\<lambda>d_k.
     split_heads query
       [IntV (int b), IntV (int s), h, ObjV ''MultiHeadAttentionBlock'' self, d_k]))))"

text \<open>Line 252: \<^verbatim>\<open>query.view(key.shape[0], key.shape[1], self.h, self.d_k).transpose(1, 2)\<close>.\<close>

definition split_key :: "pyobj \<Rightarrow> tensor \<Rightarrow> tensor \<Rightarrow> error + tensor" where
  "split_key self query key_t =
     bindE (shape_at key_t 0) (\<lambda>b.
     bindE (shape_at key_t 1) (\<lambda>s.
     bindE (getattr self ''h'') (\<lambda>h.
     bindE (getattr self ''d_k'') (\<lambda>d_k.
     split_heads query [IntV (int b), IntV (int s), h, d_k]))))"

text \<open>Line 253: \<^verbatim>\<open>value.view(value.shape[0], view.shape[1], self.h, self.d_k).transpose(1, 2)\<close>.\<close>

definition split_value :: "pyobj \<Rightarrow> pyobj \<Rightarrow> tensor \<Rightarrow> error + tensor" where
  "split_value g self value_t =
     bindE (shape_at value_t 0) (\<lambda>b.
     bindE (lookup_name g ''view'') (\<lambda>view_v.
     bindE (case view_v of TensorV w \<Rightarrow> shape_at w 1
            | _ \<Rightarrow> Inl (AttributeError ''shape'')) (\<lambda>s.
     bindE (getattr self ''h'') (\<lambda>h.
     bindE (getattr self ''d_k'') (\<lambda>d_k.
     split_heads value_t [IntV (int b), IntV (int s), h, d_k])))))"

text \<open>Line 256: \<^verbatim>\<open>x.transpose(1, 2).contiguous().view(x.shape[0], -1, self.h * self.d_k)\<close>.\<close>

definition merge_heads :: "pyobj \<Rightarrow> tensor \<Rightarrow> error + tensor" where
  "merge_heads self x =
     bindE (transpose_t x 1 2) (\<lambda>y.
     bindE (shape_at x 0) (\<lambda>b.
     bindE (getattr self ''h'') (\<lambda>h.
     bindE (getattr self ''d_k'') (\<lambda>d_k.
     bindE (py_mul h d_k) (\<lambda>d_model.
     view_py (contiguous y) [IntV (int b), IntV (- 1), d_model])))))"

text \<open>
  \<^verbatim>\<open>forward(self, q, k, v, mask)\<close>, lines 242 to 254: the projections, the three head
  splits and the call of \<^verbatim>\<open>attention\<close>, which passes five arguments.
\<close>

definition forward_heads ::
  "pyobj \<Rightarrow> pyobj \<Rightarrow> (nat \<Rightarrow> real) \<Rightarrow> tensor \<Rightarrow> tensor \<Rightarrow> tensor \<Rightarrow> pyval
     \<Rightarrow> error + tensor \<times> tensor" where
  "forward_heads g self us q k v mask_v =
     bindE (getattr self ''w_q'') (\<lambda>w_q. bindE (call_module w_q us q) (\<lambda>query.
     bindE (getattr self ''w_k'') (\<lambda>w_k. bindE (call_module w_k us k) (\<lambda>key_t.
     bindE (getattr self ''w_v'') (\<lambda>w_v. bindE (call_module w_v us v) (\<lambda>value_t.
     bindE (split_query g self query) (\<lambda>query.
     bindE (split_key self query key_t) (\<lambda>key_t.
     bindE (split_value g self value_t) (\<lambda>value_t.
     bindE (getattr self ''dropout'') (\<lambda>dropout.
     call_attention g us
       [TensorV query, TensorV key_t, TensorV value_t, mask_v, dropout]))))))))))"

text \<open>
  The whole method: the result and the instance after the call. The assignment to
  \<^verbatim>\<open>self.attention_scores\<close> (line 254) is the only write to the instance.
\<close>

definition MultiHeadAttentionBlock_forward ::
  "pyobj \<Rightarrow> pyobj \<Rightarrow> (nat \<Rightarrow> real) \<Rightarrow> tensor \<Rightarrow> tensor \<Rightarrow> tensor \<Rightarrow> pyval
     \<Rightarrow> (error + tensor) \<times> pyobj" where
  "MultiHeadAttentionBlock_forward g self us q k v mask_v =
     (case forward_heads g self us q k v mask_v of
        Inl e \<Rightarrow> (Inl e, self)
      | Inr (x, attention_scores) \<Rightarrow>
          (let self' = self(''attention_scores'' \<mapsto> TensorV attention_scores)
           in (bindE (merge_heads self' x) (\<lambda>x.
               bindE (getattr self' ''w_o'') (\<lambda>w_o.
               call_module w_o us x)), self')))"

section \<open>ResidualConnection\<close>

definition ResidualConnection_init :: "real \<Rightarrow> error + pyobj" where
  "ResidualConnection_init dropout =
     bindE (nn_Dropout dropout) (\<lambda>d.
     Inr [''dropout'' \<mapsto> d,
          ''norm'' \<mapsto> ObjV ''LayerNormalization'' (LayerNormalization_init eps_default)])"

definition ResidualConnection_forward ::
  "pyobj \<Rightarrow> (nat \<Rightarrow> real) \<Rightarrow> tensor \<Rightarrow> (tensor \<Rightarrow> error + tensor) \<Rightarrow> error + tensor" where
  "ResidualConnection_forward self us x sublayer =
     bindE (getattr self ''dropout'') (\<lambda>dropout.
     bindE (getattr self ''norm'') (\<lambda>norm_v.
     bindE (call_module norm_v us x) (\<lambda>n.
     bindE (sublayer n) (\<lambda>s.
     bindE (call_module dropout us s) (\<lambda>d.
     tensor_binop (+) x d)))))"

text \<open>
  The specification's wording, \<open>x + dropout(sublayer(layernorm(x)))\<close>, for a layer
  normalisation with attributes \<open>norm_attrs\<close> and a dropout of rate \<open>p\<close>.
\<close>

definition residual_spec ::
  "pyobj \<Rightarrow> real \<Rightarrow> bool \<Rightarrow> (nat \<Rightarrow> real) \<Rightarrow> (tensor \<Rightarrow> error + tensor) \<Rightarrow> tensor \<Rightarrow> error + tensor" where
  "residual_spec norm_attrs p training us sublayer x =
     bindE (LayerNormalization_forward norm_attrs x) (\<lambda>n.
     bindE (sublayer n) (\<lambda>s.
     tensor_binop (+) x (F_dropout p training us s)))"

section \<open>The specification's concrete scenario\<close>

text \<open>
  \<open>d_model = 4\<close>, \<open>h = 2\<close>, identity weight matrices and zero biases: the initialiser
  \<open>identity_ini\<close> puts 1 on the diagonal of a 4 by 4 weight and 0 elsewhere, and
  \<open>scenario_block\<close> is the instance the constructor then builds.
\<close>

definition identity_ini :: "string \<Rightarrow> nat \<Rightarrow> real" where
  "identity_ini name n = (if n \<in> {0, 5, 10, 15} then 1 else 0)"

definition scenario_block :: pyobj where
  "scenario_block =
     [''d_model'' \<mapsto> IntV 4, ''h'' \<mapsto> IntV 2, ''d_k'' \<mapsto> IntV 2,
      ''w_q'' \<mapsto> LinearV \<lparr>shape = [4, 4], data = [1,0,0,0, 0,1,0,0, 0,0,1,0, 0,0,0,1]\<rparr>
                  \<lparr>shape = [4], data = [0, 0, 0, 0]\<rparr>,
      ''w_k'' \<mapsto> LinearV \<lparr>shape = [4, 4], data = [1,0,0,0, 0,1,0,0, 0,0,1,0, 0,0,0,1]\<rparr>
                  \<lparr>shape = [4], data = [0, 0, 0, 0]\<rparr>,
      ''w_v'' \<mapsto> LinearV \<lparr>shape = [4, 4], data = [1,0,0,0, 0,1,0,0, 0,0,1,0, 0,0,0,1]\<rparr>
                  \<lparr>shape = [4], data = [0, 0, 0, 0]\<rparr>,
      ''w_o'' \<mapsto> LinearV \<lparr>shape = [4, 4], data = [1,0,0,0, 0,1,0,0, 0,0,1,0, 0,0,0,1]\<rparr>
                  \<lparr>shape = [4], data = [0, 0, 0, 0]\<rparr>,
      ''dropout'' \<mapsto> DropoutV 0 True]"


section \<open>Facts about indexing and broadcasting\<close>

lemma length_unravel: "length (unravel sh n) = length sh"
  by (induction sh arbitrary: n) auto

lemma mod_mult_div: "(n::nat) mod (p * d) div d = n div d mod p"
proof (cases "d = 0")
  case True
  then show ?thesis by simp
next
  case False
  have "n mod (d * p) = d * (n div d mod p) + n mod d" by (rule mod_mult2_eq)
  then have "n mod (d * p) div d = (d * (n div d mod p) + n mod d) div d" by simp
  also have "\<dots> = n div d mod p" using False by simp
  finally show ?thesis by (simp add: mult.commute)
qed

lemma unravel_snoc:
  "n < prod_list sh * d \<Longrightarrow> unravel (sh @ [d]) n = unravel sh (n div d) @ [n mod d]"
proof (induction sh arbitrary: n)
  case Nil
  then show ?case by simp
next
  case (Cons c sh)
  have pos: "0 < prod_list sh * d" using Cons.prems by (cases "prod_list sh * d = 0") auto
  have a: "n div (prod_list sh * d) = n div d div prod_list sh"
    by (simp add: div_mult2_eq mult.commute)
  have b: "n mod (prod_list sh * d) div d = n div d mod prod_list sh"
    by (rule mod_mult_div)
  have c: "n mod (prod_list sh * d) mod d = n mod d"
    by (simp add: mod_mod_cancel)
  have "n mod (prod_list sh * d) < prod_list sh * d" using pos by simp
  then have "unravel (sh @ [d]) (n mod (prod_list sh * d)) =
     unravel sh (n mod (prod_list sh * d) div d) @ [n mod (prod_list sh * d) mod d]"
    by (rule Cons.IH)
  then show ?case using a b c by simp
qed

lemma ravel_snoc:
  "length idx = length sh \<Longrightarrow> ravel (sh @ [d]) (idx @ [j]) = ravel sh idx * d + j"
proof (induction sh arbitrary: idx)
  case Nil
  then show ?case by simp
next
  case (Cons c sh)
  then obtain i js where "idx = i # js" by (cases idx) auto
  with Cons show ?case by (simp add: algebra_simps)
qed

lemma ravel_unravel: "n < prod_list sh \<Longrightarrow> ravel sh (unravel sh n) = n"
proof (induction sh arbitrary: n)
  case Nil
  then show ?case by simp
next
  case (Cons d sh)
  have p: "0 < prod_list sh" using Cons.prems by (cases "prod_list sh = 0") auto
  have "n mod prod_list sh < prod_list sh" using p by simp
  then show ?case using Cons.IH[of "n mod prod_list sh"] by simp
qed

lemma valid_unravel: "n < prod_list sh \<Longrightarrow> list_all2 (<) (unravel sh n) sh"
proof (induction sh arbitrary: n)
  case Nil
  then show ?case by simp
next
  case (Cons d sh)
  have p: "0 < prod_list sh" using Cons.prems by (cases "prod_list sh = 0") auto
  have "n div prod_list sh < d" using Cons.prems p
    by (simp add: less_mult_imp_div_less mult.commute)
  moreover have "n mod prod_list sh < prod_list sh" using p by simp
  ultimately show ?case using Cons.IH by simp
qed

lemma bidx_valid: "list_all2 (<) idx sh \<Longrightarrow> bidx sh idx = idx"
proof -
  assume a: "list_all2 (<) idx sh"
  then have l: "length idx = length sh" by (rule list_all2_lengthD)
  have "map2 (\<lambda>d i. if d = 1 then 0 else i) sh idx = idx"
    using a by (induction idx sh rule: list_all2_induct) auto
  then show ?thesis using l by (simp add: bidx_def)
qed

lemma ravel_less: "list_all2 (<) idx sh \<Longrightarrow> ravel sh idx < prod_list sh"
proof (induction idx sh rule: list_all2_induct)
  case Nil
  then show ?case by simp
next
  case (Cons a as b bs)
  have "a * prod_list bs + ravel bs as < a * prod_list bs + prod_list bs" using Cons by simp
  also have "\<dots> = (a + 1) * prod_list bs" by simp
  also have "\<dots> \<le> b * prod_list bs" using Cons.hyps(1) by (intro mult_le_mono1) simp
  finally show ?case by simp
qed

lemma unravel_ravel: "list_all2 (<) idx sh \<Longrightarrow> unravel sh (ravel sh idx) = idx"
proof (induction idx sh rule: list_all2_induct)
  case Nil
  then show ?case by simp
next
  case (Cons i idx d sh)
  have "ravel sh idx < prod_list sh" using Cons.hyps(2) by (rule ravel_less)
  then show ?case using Cons by simp
qed

lemma broadcast_rev_same: "broadcast_rev xs xs = Some xs"
  by (induction xs) auto

lemma broadcast_shapes_row: "broadcast_shapes (sh @ [d]) (sh @ [1]) = Inr (sh @ [d])"
  by (simp add: broadcast_shapes_def broadcast_rev_same)

lemma broadcast_shapes_one_left: "broadcast_shapes [1] (sh @ [d]) = Inr (sh @ [d])"
  by (simp add: broadcast_shapes_def)

lemma broadcast_shapes_one_right: "broadcast_shapes (sh @ [d]) [1] = Inr (sh @ [d])"
  by (cases "rev sh") (simp_all add: broadcast_shapes_def)

text \<open>Reading a full-shape operand, a per-row operand and a one-element operand.\<close>

lemma at_bc_full:
  assumes "shape x = sh" "n < prod_list sh"
  shows "at_bc x (unravel sh n) = data x ! n"
  using assms by (simp add: at_bc_def bidx_valid valid_unravel ravel_unravel)

lemma at_bc_row:
  assumes "shape m = sh @ [1]" "n < prod_list sh * d"
  shows "at_bc m (unravel (sh @ [d]) n) = data m ! (n div d)"
proof -
  have dpos: "0 < d" using assms(2) by (cases d) auto
  have r: "n div d < prod_list sh" using assms(2) dpos
    by (simp add: less_mult_imp_div_less)
  have v: "list_all2 (<) (unravel sh (n div d)) sh" using r by (rule valid_unravel)
  have l: "length (unravel sh (n div d)) = length sh" by (rule length_unravel)
  have "bidx (sh @ [1]) (unravel sh (n div d) @ [n mod d]) =
        bidx sh (unravel sh (n div d)) @ [0]"
    using l by (simp add: bidx_def)
  also have "\<dots> = unravel sh (n div d) @ [0]" using v by (simp add: bidx_valid)
  finally have b: "bidx (sh @ [1]) (unravel (sh @ [d]) n) = unravel sh (n div d) @ [0]"
    using assms(2) by (simp add: unravel_snoc)
  show ?thesis
    using assms(1) b l r by (simp add: at_bc_def ravel_snoc ravel_unravel)
qed

lemma at_bc_one:
  assumes "shape a = [1]" "idx \<noteq> []"
  shows "at_bc a idx = data a ! 0"
proof -
  have "drop (length idx - 1) idx = [last idx]" using assms(2)
    by (metis append_butlast_last_id append_eq_conv_conj length_butlast)
  then show ?thesis using assms(1) by (simp add: at_bc_def bidx_def)
qed

lemma binop_row:
  assumes "shape x = sh @ [d]" "shape m = sh @ [1]"
  shows "tensor_binop f x m =
    Inr \<lparr>shape = sh @ [d],
         data = map (\<lambda>n. f (data x ! n) (data m ! (n div d))) [0..<prod_list sh * d]\<rparr>"
proof -
  have "map (\<lambda>n. f (at_bc x (unravel (sh @ [d]) n)) (at_bc m (unravel (sh @ [d]) n)))
          [0..<prod_list sh * d] =
        map (\<lambda>n. f (data x ! n) (data m ! (n div d))) [0..<prod_list sh * d]"
  proof (rule map_cong[OF refl])
    fix n assume "n \<in> set [0..<prod_list sh * d]"
    then have n: "n < prod_list sh * d" by simp
    have "at_bc x (unravel (sh @ [d]) n) = data x ! n"
      using assms(1) n by (intro at_bc_full) simp_all
    moreover have "at_bc m (unravel (sh @ [d]) n) = data m ! (n div d)"
      using assms(2) n by (rule at_bc_row)
    ultimately show "f (at_bc x (unravel (sh @ [d]) n)) (at_bc m (unravel (sh @ [d]) n)) =
      f (data x ! n) (data m ! (n div d))" by simp
  qed
  moreover have "broadcast_shapes (shape x) (shape m) = Inr (sh @ [d])"
    using assms broadcast_shapes_row[of sh d] by simp
  ultimately show ?thesis
    by (simp add: tensor_binop_def bindE_def)
qed

lemma binop_one_left:
  assumes "shape a = [1]" "shape y = sh @ [d]"
  shows "tensor_binop f a y =
    Inr \<lparr>shape = sh @ [d],
         data = map (\<lambda>n. f (data a ! 0) (data y ! n)) [0..<prod_list sh * d]\<rparr>"
proof -
  have "map (\<lambda>n. f (at_bc a (unravel (sh @ [d]) n)) (at_bc y (unravel (sh @ [d]) n)))
          [0..<prod_list sh * d] =
        map (\<lambda>n. f (data a ! 0) (data y ! n)) [0..<prod_list sh * d]"
  proof (rule map_cong[OF refl])
    fix n assume "n \<in> set [0..<prod_list sh * d]"
    then have n: "n < prod_list sh * d" by simp
    have "unravel (sh @ [d]) n \<noteq> []"
      using length_unravel[of "sh @ [d]" n] by auto
    then have "at_bc a (unravel (sh @ [d]) n) = data a ! 0"
      using assms(1) by (intro at_bc_one)
    moreover have "at_bc y (unravel (sh @ [d]) n) = data y ! n"
      using assms(2) n by (intro at_bc_full) simp_all
    ultimately show "f (at_bc a (unravel (sh @ [d]) n)) (at_bc y (unravel (sh @ [d]) n)) =
      f (data a ! 0) (data y ! n)" by simp
  qed
  moreover have "broadcast_shapes (shape a) (shape y) = Inr (sh @ [d])"
    using assms broadcast_shapes_one_left[of sh d] by simp
  ultimately show ?thesis
    by (simp add: tensor_binop_def bindE_def)
qed

lemma binop_one_right:
  assumes "shape y = sh @ [d]" "shape b = [1]"
  shows "tensor_binop f y b =
    Inr \<lparr>shape = sh @ [d],
         data = map (\<lambda>n. f (data y ! n) (data b ! 0)) [0..<prod_list sh * d]\<rparr>"
proof -
  have "map (\<lambda>n. f (at_bc y (unravel (sh @ [d]) n)) (at_bc b (unravel (sh @ [d]) n)))
          [0..<prod_list sh * d] =
        map (\<lambda>n. f (data y ! n) (data b ! 0)) [0..<prod_list sh * d]"
  proof (rule map_cong[OF refl])
    fix n assume "n \<in> set [0..<prod_list sh * d]"
    then have n: "n < prod_list sh * d" by simp
    have "unravel (sh @ [d]) n \<noteq> []"
      using length_unravel[of "sh @ [d]" n] by auto
    then have "at_bc b (unravel (sh @ [d]) n) = data b ! 0"
      using assms(2) by (intro at_bc_one)
    moreover have "at_bc y (unravel (sh @ [d]) n) = data y ! n"
      using assms(1) n by (intro at_bc_full) simp_all
    ultimately show "f (at_bc y (unravel (sh @ [d]) n)) (at_bc b (unravel (sh @ [d]) n)) =
      f (data y ! n) (data b ! 0)" by simp
  qed
  moreover have "broadcast_shapes (shape y) (shape b) = Inr (sh @ [d])"
    using assms broadcast_shapes_one_right[of sh d] by simp
  ultimately show ?thesis
    by (simp add: tensor_binop_def bindE_def)
qed

lemma rows_snoc:
  "shape x = sh @ [d] \<Longrightarrow>
   rows x = map (\<lambda>r. take d (drop (r * d) (data x))) [0..<prod_list sh]"
  by (simp add: rows_def list.case_eq_if)

lemma reduce_last_snoc:
  "shape x = sh @ [d] \<Longrightarrow>
   reduce_last_keepdim f x = \<lparr>shape = sh @ [1], data = map f (rows x)\<rparr>"
  by (simp add: reduce_last_keepdim_def list.case_eq_if)

lemma concat_map_upt:
  assumes "\<And>r. r < R \<Longrightarrow> length (F r) = d"
  shows "concat (map F [0..<R]) = map (\<lambda>n. F (n div d) ! (n mod d)) [0..<R * d]"
  using assms
proof (induction R)
  case 0
  then show ?case by simp
next
  case (Suc R)
  have ih: "concat (map F [0..<R]) = map (\<lambda>n. F (n div d) ! (n mod d)) [0..<R * d]"
    using Suc by simp
  have len: "length (F R) = d" using Suc.prems by simp
  have last: "map (\<lambda>n. F (n div d) ! (n mod d)) [R * d..<R * d + d] = F R"
  proof (rule nth_equalityI)
    show "length (map (\<lambda>n. F (n div d) ! (n mod d)) [R * d..<R * d + d]) = length (F R)"
      using len by simp
  next
    fix i assume "i < length (map (\<lambda>n. F (n div d) ! (n mod d)) [R * d..<R * d + d])"
    then have i: "i < d" by simp
    then have "(R * d + i) div d = R" "(R * d + i) mod d = i" by simp_all
    then show "map (\<lambda>n. F (n div d) ! (n mod d)) [R * d..<R * d + d] ! i = F R ! i"
      using i by simp
  qed
  have "[0..<Suc R * d] = [0..<R * d] @ [R * d..<R * d + d]"
    by (metis add.commute le_add1 mult_Suc upt_add_eq_append zero_le)
  then show ?case using ih last by simp
qed

lemma broadcast_shapes_same: "broadcast_shapes sh sh = Inr sh"
  by (simp add: broadcast_shapes_def broadcast_rev_same)

lemma binop_same:
  assumes "shape a = sh" "shape b = sh"
  shows "tensor_binop f a b =
    Inr \<lparr>shape = sh, data = map (\<lambda>n. f (data a ! n) (data b ! n)) [0..<prod_list sh]\<rparr>"
proof -
  have "map (\<lambda>n. f (at_bc a (unravel sh n)) (at_bc b (unravel sh n))) [0..<prod_list sh] =
        map (\<lambda>n. f (data a ! n) (data b ! n)) [0..<prod_list sh]"
  proof (rule map_cong[OF refl])
    fix n assume "n \<in> set [0..<prod_list sh]"
    then have n: "n < prod_list sh" by simp
    show "f (at_bc a (unravel sh n)) (at_bc b (unravel sh n)) = f (data a ! n) (data b ! n)"
      using assms n by (simp add: at_bc_full)
  qed
  then show ?thesis
    using assms by (simp add: tensor_binop_def broadcast_shapes_same bindE_def)
qed

lemma F_dropout_rate_zero:
  assumes "\<And>i. us i < 1"
  shows "F_dropout 0 training us x = x"
proof -
  have "map (\<lambda>i. if us i < 1 - 0 then data x ! i / (1 - 0) else 0) [0..<length (data x)] = data x"
    using assms by (simp add: map_nth)
  then show ?thesis by (simp add: F_dropout_def)
qed

section \<open>What the constructor of MultiHeadAttentionBlock stores\<close>

lemma MultiHeadAttentionBlock_init_attrs:
  assumes "MultiHeadAttentionBlock_init ini d_model h dropout = Inr self"
  shows "h \<noteq> 0" "d_model mod h = 0"
    "self ''h'' = Some (IntV h)" "self ''d_k'' = Some (IntV (d_model div h))"
    "self ''d_model'' = Some (IntV d_model)" "self ''attention_scores'' = None"
  using assms
  by (auto simp: MultiHeadAttentionBlock_init_def nn_Linear_def nn_Dropout_def bindE_def
      split: if_splits)

section \<open>LayerNormalization, element by element\<close>

lemma row_length:
  assumes "length xs = R * d" "r < R"
  shows "length (take d (drop (r * d) xs)) = d"
proof -
  have "r * d + d \<le> R * d"
    using assms(2) by (metis Suc_leI mult_Suc mult_le_mono1 add.commute)
  then show ?thesis using assms(1) by simp
qed

lemma row_nth:
  assumes "length xs = R * d" "r < R" "j < d"
  shows "take d (drop (r * d) xs) ! j = xs ! (r * d + j)"
proof -
  have "r * d + d \<le> R * d"
    using assms(2) by (metis Suc_leI mult_Suc mult_le_mono1 add.commute)
  then show ?thesis using assms by simp
qed

lemma sum_list_index: "sum_list (map f v) = (\<Sum>i<length v. f (v ! i))"
proof -
  have "sum_list (map f v) = (\<Sum>i = 0..<length (map f v). map f v ! i)"
    by (rule sum_list_sum_nth)
  also have "\<dots> = (\<Sum>i = 0..<length v. f (v ! i))"
    by (rule sum.cong) simp_all
  also have "\<dots> = (\<Sum>i<length v. f (v ! i))"
    by (simp only: atLeast0LessThan)
  finally show ?thesis .
qed

lemma average_mean_vec: "mean_vec v = average v"
  using sum_list_index[of "\<lambda>e. e" v] by (simp add: mean_vec_def average_def)

lemma sample_std_std_vec:
  assumes "1 \<le> length v"
  shows "std_vec v = sample_std v"
proof -
  have "real (length v) - 1 = real (length v - 1)"
    using assms by (simp add: of_nat_diff)
  then show ?thesis
    using sum_list_index[of "\<lambda>e. (e - average v)\<^sup>2" v]
    by (simp only: std_vec_def sample_std_def average_mean_vec)
qed

lemma LayerNormalization_forward_elems:
  assumes alpha: "self ''alpha'' = Some (TensorV \<lparr>shape = [1], data = [a]\<rparr>)"
    and bias: "self ''bias'' = Some (TensorV \<lparr>shape = [1], data = [b]\<rparr>)"
    and eps: "self ''eps'' = Some (FloatV e)"
    and sh: "shape x = sh @ [d]"
    and wf: "length (data x) = prod_list (shape x)"
    and d2: "2 \<le> d"
    and nz: "\<And>r. r < prod_list sh \<Longrightarrow> std_vec (take d (drop (r * d) (data x))) + e \<noteq> 0"
  shows "LayerNormalization_forward self x =
     Inr \<lparr>shape = shape x,
          data = map (\<lambda>n. a * (data x ! n - mean_vec (take d (drop (n div d * d) (data x)))) /
                           (std_vec (take d (drop (n div d * d) (data x))) + e) + b)
                   [0..<prod_list (shape x)]\<rparr>"
proof -
  define R where "R = prod_list sh"
  define N where "N = R * d"
  define row where "row r = take d (drop (r * d) (data x))" for r
  have len: "length (data x) = R * d" using wf sh by (simp add: R_def)
  have rows_eq: "rows x = map row [0..<R]"
    using sh by (simp add: rows_snoc R_def row_def)
  have rl: "\<And>v. v \<in> set (rows x) \<Longrightarrow> length v = d"
  proof -
    fix v assume "v \<in> set (rows x)"
    then obtain r where r: "r < R" and v: "v = row r" unfolding rows_eq by auto
    show "length v = d" unfolding v row_def using len r by (rule row_length)
  qed
  have m0: "tensor_mean_last x = Inr (reduce_last_keepdim mean_vec x)"
    using rl[of "[]"] d2 by (auto simp: tensor_mean_last_def)
  have s0: "tensor_std_last x = Inr (reduce_last_keepdim std_vec x)"
    using rl d2 by (force simp: tensor_std_last_def)
  have mean: "reduce_last_keepdim mean_vec x = \<lparr>shape = sh @ [1], data = map mean_vec (rows x)\<rparr>"
    using sh by (rule reduce_last_snoc)
  have std: "reduce_last_keepdim std_vec x = \<lparr>shape = sh @ [1], data = map std_vec (rows x)\<rparr>"
    using sh by (rule reduce_last_snoc)
  define centred where
    "centred = \<lparr>shape = sh @ [d], data = map (\<lambda>n. data x ! n - map mean_vec (rows x) ! (n div d)) [0..<N]\<rparr>"
  have s1: "tensor_binop (-) x (reduce_last_keepdim mean_vec x) = Inr centred"
    unfolding mean centred_def N_def R_def using sh
    by (subst binop_row[where sh=sh and d=d]) simp_all
  define num where
    "num = \<lparr>shape = sh @ [d], data = map (\<lambda>n. a * data centred ! n) [0..<N]\<rparr>"
  have s2: "arith_vt (*) (TensorV \<lparr>shape = [1], data = [a]\<rparr>) centred = Inr num"
    unfolding arith_vt_def num_def N_def R_def
    by (simp add: binop_one_left[where sh=sh and d=d] centred_def)
  define den where
    "den = \<lparr>shape = sh @ [1], data = map (\<lambda>v. std_vec v + e) (rows x)\<rparr>"
  have s3: "arith_tv (+) (reduce_last_keepdim std_vec x) (FloatV e) = Inr den"
    unfolding std arith_tv_def den_def by (simp add: tensor_map_def)
  define quot where
    "quot = \<lparr>shape = sh @ [d], data = map (\<lambda>n. data num ! n / data den ! (n div d)) [0..<N]\<rparr>"
  have s4': "tensor_binop (/) num den = Inr quot"
    unfolding quot_def N_def R_def
    by (subst binop_row[where sh=sh and d=d]) (simp_all add: num_def den_def)
  have nz': "0 \<notin> set (data den)"
  proof
    assume "0 \<in> set (data den)"
    then obtain r where r: "r < R" and z: "std_vec (row r) + e = 0"
      unfolding den_def rows_eq by auto
    from nz[of r] r z show False by (simp add: R_def row_def)
  qed
  have s4: "tensor_div num den = Inr quot"
    using s4' nz' by (simp add: tensor_div_def bindE_def)
  define out where
    "out = \<lparr>shape = sh @ [d], data = map (\<lambda>n. data quot ! n + b) [0..<N]\<rparr>"
  have s5: "arith_tv (+) quot (TensorV \<lparr>shape = [1], data = [b]\<rparr>) = Inr out"
    unfolding arith_tv_def out_def N_def R_def
    by (simp add: binop_one_right[where sh=sh and d=d] quot_def)
  have run: "LayerNormalization_forward self x = Inr out"
    using m0 s0 s1 s2 s3 s4 s5 alpha bias eps
    by (simp add: LayerNormalization_forward_def getattr_def bindE_def)
  have "\<And>n. n < N \<Longrightarrow> data quot ! n + b =
      a * (data x ! n - mean_vec (row (n div d))) / (std_vec (row (n div d)) + e) + b"
  proof -
    fix n assume n: "n < N"
    then have dpos: "0 < d" unfolding N_def by (cases d) auto
    have r: "n div d < R" using n dpos unfolding N_def by (simp add: less_mult_imp_div_less)
    show "data quot ! n + b =
      a * (data x ! n - mean_vec (row (n div d))) / (std_vec (row (n div d)) + e) + b"
      using n r by (simp add: quot_def num_def den_def centred_def rows_eq)
  qed
  then have "data out = map (\<lambda>n. a * (data x ! n - mean_vec (row (n div d))) /
                           (std_vec (row (n div d)) + e) + b) [0..<N]"
    by (simp add: out_def)
  then show ?thesis using run sh by (simp add: out_def N_def R_def row_def)
qed

section \<open>Where the methods raise\<close>

lemma bindE_raisesI:
  assumes "\<And>v. m = Inr v \<Longrightarrow> \<exists>e. f v = Inl e"
  shows "\<exists>e. bindE m f = Inl e"
  using assms by (cases m) (simp_all add: bindE_def)

lemma int_args_self:
  "int_args [IntV b, IntV s, h, ObjV c attrs, d_k] =
     Inl (TypeError ''view(): argument size must be tuple of ints'')"
  by (cases h) (simp_all add: bindE_def)

lemma split_heads_self:
  "split_heads t [IntV b, IntV s, h, ObjV c attrs, d_k] =
     Inl (TypeError ''view(): argument size must be tuple of ints'')"
  unfolding split_heads_def view_py_def int_args_self by (simp add: bindE_def)

lemma split_query_raises: "\<exists>e. split_query g self query = Inl e"
  unfolding split_query_def split_heads_self by (intro bindE_raisesI) blast

lemma forward_heads_raises: "\<exists>e. forward_heads g self us q k v mask_v = Inl e"
  unfolding forward_heads_def
  by (intro bindE_raisesI) (metis split_query_raises sum.distinct(1))

lemma MultiHeadAttentionBlock_forward_raises:
  "\<exists>e. MultiHeadAttentionBlock_forward g self us q k v mask_v = (Inl e, self)"
  using forward_heads_raises[of g self us q k v mask_v]
  by (auto simp: MultiHeadAttentionBlock_forward_def)

lemmas tensor_eval =
  tensor_binop_def broadcast_shapes_def at_bc_def bidx_def tensor_map_def
  transpose_t_def transpose_dims_def norm_dim_def swap_at_def
  matmul_def matmul_nd_def linear_forward_def bindE_def Let_def

lemma lookup_mask: "lookup_name notebook_globals ''mask'' = Inl (NameError ''mask'')"
  by (simp add: lookup_name_def notebook_globals_def)

lemma attention_raises: "\<exists>e. attention notebook_globals us query key_t value_t dropout = Inl e"
  unfolding attention_def lookup_mask
  by (intro bindE_raisesI) (simp add: bindE_def)

lemma lookup_d_k: "lookup_name notebook_globals ''d_k'' = Inl (NameError ''d_k'')"
  by (simp add: lookup_name_def notebook_globals_def)

lemma identity_linear:
  "nn_Linear (identity_ini name) 4 4 =
     Inr (LinearV \<lparr>shape = [4, 4], data = [1,0,0,0, 0,1,0,0, 0,0,1,0, 0,0,0,1]\<rparr>
                  \<lparr>shape = [4], data = [0, 0, 0, 0]\<rparr>)"
  by (simp add: nn_Linear_def identity_ini_def upt_rec)

lemma identity_projection:
  "call_module (LinearV \<lparr>shape = [4, 4], data = [1,0,0,0, 0,1,0,0, 0,0,1,0, 0,0,0,1]\<rparr>
                  \<lparr>shape = [4], data = [0, 0, 0, 0]\<rparr>) us
     \<lparr>shape = [1, 1, 4], data = [1, 0, 1, 0]\<rparr> =
   Inr \<lparr>shape = [1, 1, 4], data = [1, 0, 1, 0]\<rparr>"
  by (simp add: call_module_def tensor_eval upt_rec)

lemma scenario_init: "MultiHeadAttentionBlock_init identity_ini 4 2 0 = Inr scenario_block"
  by (simp add: MultiHeadAttentionBlock_init_def identity_linear nn_Dropout_def bindE_def
      scenario_block_def)

lemma scenario_forward_heads:
  "forward_heads notebook_globals scenario_block us
     \<lparr>shape = [1, 1, 4], data = [1, 0, 1, 0]\<rparr> \<lparr>shape = [1, 1, 4], data = [1, 0, 1, 0]\<rparr>
     \<lparr>shape = [1, 1, 4], data = [1, 0, 1, 0]\<rparr> NoneV = Inl (NameError ''d_k'')"
proof -
  have a: "getattr scenario_block ''w_q'' = Inr (LinearV \<lparr>shape = [4, 4], data = [1,0,0,0, 0,1,0,0, 0,0,1,0, 0,0,0,1]\<rparr>
                  \<lparr>shape = [4], data = [0, 0, 0, 0]\<rparr>)"
    "getattr scenario_block ''w_k'' = Inr (LinearV \<lparr>shape = [4, 4], data = [1,0,0,0, 0,1,0,0, 0,0,1,0, 0,0,0,1]\<rparr>
                  \<lparr>shape = [4], data = [0, 0, 0, 0]\<rparr>)"
    "getattr scenario_block ''w_v'' = Inr (LinearV \<lparr>shape = [4, 4], data = [1,0,0,0, 0,1,0,0, 0,0,1,0, 0,0,0,1]\<rparr>
                  \<lparr>shape = [4], data = [0, 0, 0, 0]\<rparr>)"
    "getattr scenario_block ''h'' = Inr (IntV 2)"
    by (simp_all add: getattr_def scenario_block_def)
  have q: "split_query notebook_globals scenario_block \<lparr>shape = [1, 1, 4], data = [1, 0, 1, 0]\<rparr> =
      Inl (NameError ''d_k'')"
    using a lookup_d_k by (simp add: split_query_def shape_at_def bindE_def)
  show ?thesis
    using a identity_projection[of us] q by (simp add: forward_heads_def bindE_def)
qed

section \<open>The positional table as the constructor computes it\<close>

lemma count_cols:
  assumes "s \<le> 1"
  shows "length (filter (\<lambda>j. s \<le> j \<and> (j - s) mod 2 = 0) [0..<2 * m]) = m"
proof (induction m)
  case 0
  then show ?case by simp
next
  case (Suc m)
  have u: "[0..<2 * Suc m] = [0..<2 * m] @ [2 * m, Suc (2 * m)]" by simp
  have "s = 0 \<or> s = 1" using assms by auto
  then show ?case
  proof
    assume "s = 0"
    then show ?thesis using Suc unfolding u by simp
  next
    assume s: "s = 1"
    have "(2 * m - Suc 0) mod 2 = 0 \<longleftrightarrow> m = 0"
      by (cases m) (simp_all add: mod_Suc)
    then show ?thesis using Suc s unfolding u by auto
  qed
qed

lemma angle_product:
  assumes m: "0 < m" and ld: "length ds = m"
  shows "tensor_binop (*) (unsqueeze (arange L) 1) \<lparr>shape = [m], data = ds\<rparr> =
     Inr \<lparr>shape = [L, m], data = map (\<lambda>n. real (n div m) * ds ! (n mod m)) [0..<L * m]\<rparr>"
proof -
  have bs: "broadcast_shapes [L, 1] [m] = Inr [L, m]"
    by (simp add: broadcast_shapes_def)
  have "map (\<lambda>n. at_bc (unsqueeze (arange L) 1) (unravel [L, m] n) *
                  at_bc \<lparr>shape = [m], data = ds\<rparr> (unravel [L, m] n)) [0..<L * m] =
        map (\<lambda>n. real (n div m) * ds ! (n mod m)) [0..<L * m]"
  proof (rule map_cong[OF refl])
    fix n assume "n \<in> set [0..<L * m]"
    then have n: "n < L * m" by simp
    have i: "n div m < L" using n m by (simp add: less_mult_imp_div_less)
    have j: "n mod m < m" using m by simp
    have p: "at_bc (unsqueeze (arange L) 1) (unravel [L, m] n) = real (n div m)"
      using i by (auto simp: at_bc_def bidx_def unsqueeze_def arange_def)
    have q: "at_bc \<lparr>shape = [m], data = ds\<rparr> (unravel [L, m] n) = ds ! (n mod m)"
      by (auto simp: at_bc_def bidx_def)
    show "at_bc (unsqueeze (arange L) 1) (unravel [L, m] n) *
          at_bc \<lparr>shape = [m], data = ds\<rparr> (unravel [L, m] n) =
          real (n div m) * ds ! (n mod m)"
      using p q by simp
  qed
  moreover have "shape (unsqueeze (arange L) 1) = [L, 1]"
    by (simp add: unsqueeze_def arange_def)
  ultimately show ?thesis using bs by (simp add: tensor_binop_def bindE_def)
qed

lemma assign_cols_even_width:
  assumes pe: "shape pe = [L, 2 * m]" and vs: "shape vals = [L, m]" and s: "s \<le> 1"
    and m: "0 < m"
  shows "assign_cols pe s vals =
     Inr \<lparr>shape = [L, 2 * m],
          data = map (\<lambda>n. if s \<le> n mod (2 * m) \<and> (n mod (2 * m) - s) mod 2 = 0
                          then data vals ! (n div (2 * m) * m + (n mod (2 * m) - s) div 2)
                          else data pe ! n) [0..<L * (2 * m)]\<rparr>"
proof -
  have k: "length (filter (\<lambda>j. s \<le> j \<and> (j - s) mod 2 = 0) [0..<2 * m]) = m"
    using s by (rule count_cols)
  have bs: "broadcast_shapes [L, m] [L, m] = Inr [L, m]" by (rule broadcast_shapes_same)
  have "map (\<lambda>n. if s \<le> n mod (2 * m) \<and> (n mod (2 * m) - s) mod 2 = 0
                 then at_bc vals [n div (2 * m), (n mod (2 * m) - s) div 2]
                 else data pe ! n) [0..<L * (2 * m)] =
        map (\<lambda>n. if s \<le> n mod (2 * m) \<and> (n mod (2 * m) - s) mod 2 = 0
                 then data vals ! (n div (2 * m) * m + (n mod (2 * m) - s) div 2)
                 else data pe ! n) [0..<L * (2 * m)]"
  proof (rule map_cong[OF refl])
    fix n assume "n \<in> set [0..<L * (2 * m)]"
    then have n: "n < L * (2 * m)" by simp
    have i: "n div (2 * m) < L" using n m by (simp add: less_mult_imp_div_less)
    have "n mod (2 * m) < 2 * m" using m by simp
    then have j: "(n mod (2 * m) - s) div 2 < m" by auto
    have v: "list_all2 (<) [n div (2 * m), (n mod (2 * m) - s) div 2] [L, m]"
      using i j by simp
    have "at_bc vals [n div (2 * m), (n mod (2 * m) - s) div 2] =
          data vals ! ravel [L, m] [n div (2 * m), (n mod (2 * m) - s) div 2]"
      unfolding at_bc_def vs using v by (simp only: bidx_valid)
    then have "at_bc vals [n div (2 * m), (n mod (2 * m) - s) div 2] =
          data vals ! (n div (2 * m) * m + (n mod (2 * m) - s) div 2)" by simp
    then show "(if s \<le> n mod (2 * m) \<and> (n mod (2 * m) - s) mod 2 = 0
                 then at_bc vals [n div (2 * m), (n mod (2 * m) - s) div 2]
                 else data pe ! n) =
        (if s \<le> n mod (2 * m) \<and> (n mod (2 * m) - s) mod 2 = 0
                 then data vals ! (n div (2 * m) * m + (n mod (2 * m) - s) div 2)
                 else data pe ! n)" by simp
  qed
  then show ?thesis
    unfolding assign_cols_def using pe vs k bs by (simp add: bindE_def Let_def)
qed

lemma pe_table_even:
  assumes D: "d_model = 2 * int m" and m: "0 < m" and L: "seq_len = int L"
  shows "pe_table d_model seq_len =
     Inr \<lparr>shape = [L, 2 * m],
          data = map (\<lambda>n.
              if odd (n mod (2 * m))
              then cos (real (n div (2 * m)) *
                        exp (real (n mod (2 * m) - 1) * (ln 10000 / real_of_int d_model)))
              else sin (real (n div (2 * m)) *
                        exp (real (n mod (2 * m)) * (ln 10000 / real_of_int d_model))))
            [0..<L * (2 * m)]\<rparr>"
proof -
  define c where "c = ln 10000 / real_of_int d_model"
  define ds where "ds = map (\<lambda>i. exp (real (2 * i) * c)) [0..<m]"
  define A where "A = \<lparr>shape = [L, m], data = map (\<lambda>n. real (n div m) * ds ! (n mod m)) [0..<L * m]\<rparr>"
  have nd: "nat d_model = 2 * m" using D by simp
  have dt: "div_term d_model = \<lparr>shape = [m], data = ds\<rparr>"
    by (simp add: div_term_def arange_step2_def tensor_map_def nd ds_def c_def comp_def)
  have ang: "tensor_binop (*) (unsqueeze (arange L) 1) (div_term d_model) = Inr A"
    unfolding dt A_def using m by (intro angle_product) (simp_all add: ds_def)
  have Ael: "data A ! (i * m + j) = real i * exp (real (2 * j) * c)"
    if "i < L" "j < m" for i j
  proof -
    have "i * m + j < i * m + m" using that by simp
    also have "\<dots> = (i + 1) * m" by simp
    also have "\<dots> \<le> L * m" using that(1) by (intro mult_le_mono1) simp
    finally have k: "i * m + j < L * m" .
    have "(i * m + j) div m = i" "(i * m + j) mod m = j" using that by simp_all
    then show ?thesis using k that by (simp add: A_def ds_def)
  qed
  define P1 where "P1 = \<lparr>shape = [L, 2 * m],
      data = map (\<lambda>n. if 0 \<le> n mod (2 * m) \<and> (n mod (2 * m) - 0) mod 2 = 0
                      then data (tensor_map sin A) ! (n div (2 * m) * m + (n mod (2 * m) - 0) div 2)
                      else data (zeros [L, 2 * m]) ! n) [0..<L * (2 * m)]\<rparr>"
  have s1: "assign_cols (zeros [L, 2 * m]) 0 (tensor_map sin A) = Inr P1"
    unfolding P1_def using m
    by (intro assign_cols_even_width) (simp_all add: zeros_def tensor_map_def A_def)
  define P2 where "P2 = \<lparr>shape = [L, 2 * m],
      data = map (\<lambda>n. if 1 \<le> n mod (2 * m) \<and> (n mod (2 * m) - 1) mod 2 = 0
                      then data (tensor_map cos A) ! (n div (2 * m) * m + (n mod (2 * m) - 1) div 2)
                      else data P1 ! n) [0..<L * (2 * m)]\<rparr>"
  have s2: "assign_cols P1 1 (tensor_map cos A) = Inr P2"
    unfolding P2_def using m
    by (intro assign_cols_even_width) (simp_all add: P1_def tensor_map_def A_def)
  have neg: "\<not> (seq_len < 0 \<or> d_model < 0)" "d_model \<noteq> 0" using D L m by simp_all
  have nl: "nat seq_len = L" using L by simp
  have run: "pe_table d_model seq_len = Inr P2"
    unfolding pe_table_def Let_def nd nl using neg ang s1 s2 by (simp add: bindE_def)
  have "data P2 = map (\<lambda>n.
              if odd (n mod (2 * m))
              then cos (real (n div (2 * m)) * exp (real (n mod (2 * m) - 1) * c))
              else sin (real (n div (2 * m)) * exp (real (n mod (2 * m)) * c)))
            [0..<L * (2 * m)]"
    unfolding P2_def tensor.simps
  proof (rule map_cong[OF refl])
    fix n assume "n \<in> set [0..<L * (2 * m)]"
    then have n: "n < L * (2 * m)" by simp
    define i where "i = n div (2 * m)"
    define j where "j = n mod (2 * m)"
    have i: "i < L" unfolding i_def using n m by (simp add: less_mult_imp_div_less)
    have j: "j < 2 * m" unfolding j_def using m by simp
    have lenA: "length (data A) = L * m" by (simp add: A_def)
    show "(if 1 \<le> n mod (2 * m) \<and> (n mod (2 * m) - 1) mod 2 = 0
           then data (tensor_map cos A) ! (n div (2 * m) * m + (n mod (2 * m) - 1) div 2)
           else data P1 ! n) =
          (if odd (n mod (2 * m))
           then cos (real (n div (2 * m)) * exp (real (n mod (2 * m) - 1) * c))
           else sin (real (n div (2 * m)) * exp (real (n mod (2 * m)) * c)))"
    proof (cases "odd j")
      case True
      then obtain j' where j': "j = 2 * j' + 1" by (auto elim: oddE)
      have jm: "j' < m" using j j' by simp
      have "i * m + j' < i * m + m" using jm by simp
      also have "\<dots> = (i + 1) * m" by simp
      also have "\<dots> \<le> L * m" using i by (intro mult_le_mono1) simp
      finally have k: "i * m + j' < L * m" .
      have "data (tensor_map cos A) ! (i * m + j') = cos (data A ! (i * m + j'))"
        using k lenA by (simp add: tensor_map_def)
      also have "\<dots> = cos (real i * exp (real (2 * j') * c))"
        using i jm by (simp add: Ael)
      finally show ?thesis
        using True j' unfolding i_def[symmetric] j_def[symmetric] by simp
    next
      case False
      then obtain j' where j': "j = 2 * j'" by (auto elim: evenE)
      have jm: "j' < m" using j j' by simp
      have "i * m + j' < i * m + m" using jm by simp
      also have "\<dots> = (i + 1) * m" by simp
      also have "\<dots> \<le> L * m" using i by (intro mult_le_mono1) simp
      finally have k: "i * m + j' < L * m" .
      have "data (tensor_map sin A) ! (i * m + j') = sin (data A ! (i * m + j'))"
        using k lenA by (simp add: tensor_map_def)
      also have "\<dots> = sin (real i * exp (real (2 * j') * c))"
        using i jm by (simp add: Ael)
      finally have sv: "data (tensor_map sin A) ! (i * m + j') =
          sin (real i * exp (real (2 * j') * c))" .
      have "data P1 ! n = data (tensor_map sin A) ! (i * m + j')"
        using n j' by (simp add: P1_def i_def[symmetric] j_def[symmetric])
      moreover have "(2 * j' - Suc 0) mod 2 = 0 \<longleftrightarrow> j' = 0"
        by (cases j') (simp_all add: mod_Suc)
      ultimately show ?thesis
        using False j' sv unfolding i_def[symmetric] j_def[symmetric] by simp
    qed
  qed
  then show ?thesis using run by (simp add: P2_def c_def)
qed

lemma unsqueece_missing: "tensor_getattr ''unsqueece'' = Inl (AttributeError ''unsqueece'')"
  by (simp add: tensor_getattr_def tensor_attributes_def)

lemma PositionalEncoding_init_raises:
  "\<exists>e. PositionalEncoding_init d_model seq_len dropout = Inl e"
  unfolding PositionalEncoding_init_def Let_def unsqueece_missing
  by (intro bindE_raisesI) (simp add: bindE_def)

lemma root_bounds:
  fixes c :: real
  assumes "c = exp (2 * (ln 10000 / 18))"
  shows "2 \<le> c" "c < 3"
proof -
  have pos: "0 < c" using assms by simp
  have "c ^ 9 = exp (real 9 * (2 * (ln 10000 / 18)))"
    unfolding assms by (rule exp_of_nat_mult[symmetric])
  also have "\<dots> = exp (ln 10000)" by simp
  also have "\<dots> = 10000" by simp
  finally have p: "c ^ 9 = 10000" .
  show "2 \<le> c"
  proof (rule ccontr)
    assume "\<not> 2 \<le> c"
    then have "c < 2" by simp
    then have "c ^ 9 < 2 ^ 9" using pos by (intro power_strict_mono) simp_all
    then show False using p by simp
  qed
  show "c < 3"
  proof (rule ccontr)
    assume "\<not> c < 3"
    then have "3 \<le> c" by simp
    then have "3 ^ 9 \<le> c ^ 9" by (intro power_mono) simp_all
    then show False using p by simp
  qed
qed

lemma cos_neg_between:
  fixes x :: real
  assumes "2 \<le> x" "x < 3"
  shows "cos x < 0"
proof -
  have a: "- (pi / 2) < pi - x" using assms(2) pi_ge_two by simp
  have "pi / 2 < 2" by (rule pi_half_less_two)
  then have b: "pi - x < pi / 2" using assms(1) by simp
  have "0 < cos (pi - x)" using a b by (rule cos_gt_zero_pi)
  then show ?thesis by simp
qed

lemma cos_pos_small:
  fixes x :: real
  assumes "0 < x" "x < 1"
  shows "0 < cos x"
proof -
  have "x < pi / 2" using assms(2) pi_ge_two by simp
  with assms(1) show ?thesis by (rule cos_gt_zero)
qed

section \<open>Claim C1: the mask in attention\<close>

text \<open>
  Claim C1 says that a supplied mask overwrites the masked scores with \<open>-1e9\<close> before
  the softmax. The code cannot be given a mask: \<^verbatim>\<open>attention\<close> has no such parameter,
  and in the notebook's namespace the name \<^verbatim>\<open>mask\<close> is unbound. Every call of
  \<^verbatim>\<open>attention\<close> there ends in an exception; on well-shaped tensors it is
  \<open>NameError: mask\<close>, raised at the test \<^verbatim>\<open>if mask is not None\<close>, before any score is
  filled and before the softmax. The call in \<^verbatim>\<open>forward\<close> passes five arguments to a
  function of four and is a TypeError.
\<close>

theorem attention_mask_unbound:
  "(\<exists>e. attention notebook_globals us query key_t value_t dropout = Inl e) \<and>
   attention notebook_globals us \<lparr>shape = [1, 1, 1, 1], data = [1]\<rparr>
       \<lparr>shape = [1, 1, 1, 1], data = [1]\<rparr> \<lparr>shape = [1, 1, 1, 1], data = [1]\<rparr> NoneV =
     Inl (NameError ''mask'') \<and>
   call_attention g us [a1, a2, a3, a4, a5] =
     Inl (TypeError ''attention() takes 4 positional arguments'')"
proof (intro conjI)
  show "\<exists>e. attention notebook_globals us query key_t value_t dropout = Inl e"
    by (rule attention_raises)
  show "attention notebook_globals us \<lparr>shape = [1, 1, 1, 1], data = [1]\<rparr>
       \<lparr>shape = [1, 1, 1, 1], data = [1]\<rparr> \<lparr>shape = [1, 1, 1, 1], data = [1]\<rparr> NoneV =
     Inl (NameError ''mask'')"
    unfolding attention_def lookup_mask
    by (simp add: shape_last_def tensor_eval upt_rec)
  show "call_attention g us [a1, a2, a3, a4, a5] =
     Inl (TypeError ''attention() takes 4 positional arguments'')"
    by (simp add: call_attention_def)
qed

section \<open>Claim C2: the head splits of forward\<close>

text \<open>
  Claim C2 says that \<^verbatim>\<open>forward\<close> splits each of the projected query, key and value
  into heads, the key from the projected key. On the specification's scenario
  (\<open>d_model = 4\<close>, \<open>h = 2\<close>, identity weights, input \<open>[[1, 0, 1, 0]]\<close>) the code
  raises \<open>NameError: d_k\<close> at the split of the query (line 249) and returns nothing;
  for no instance, namespace or input does \<^verbatim>\<open>forward\<close> return a tensor. The key's
  split (line 252), run on its own, returns the elements of \<^verbatim>\<open>query\<close>, not those of
  the projected key.
\<close>

theorem forward_head_split_raises:
  "MultiHeadAttentionBlock_init identity_ini 4 2 0 = Inr scenario_block \<and>
   MultiHeadAttentionBlock_forward notebook_globals scenario_block us
     \<lparr>shape = [1, 1, 4], data = [1, 0, 1, 0]\<rparr> \<lparr>shape = [1, 1, 4], data = [1, 0, 1, 0]\<rparr>
     \<lparr>shape = [1, 1, 4], data = [1, 0, 1, 0]\<rparr> NoneV =
     (Inl (NameError ''d_k''), scenario_block) \<and>
   (\<exists>e. fst (MultiHeadAttentionBlock_forward g self us q k v mask_v) = Inl e) \<and>
   split_key scenario_block \<lparr>shape = [1, 2, 1, 2], data = [1, 2, 3, 4]\<rparr>
     \<lparr>shape = [1, 1, 4], data = [5, 6, 7, 8]\<rparr> =
     Inr \<lparr>shape = [1, 2, 1, 2], data = [1, 2, 3, 4]\<rparr>"
proof (intro conjI)
  show "MultiHeadAttentionBlock_init identity_ini 4 2 0 = Inr scenario_block"
    by (rule scenario_init)
  show "MultiHeadAttentionBlock_forward notebook_globals scenario_block us
     \<lparr>shape = [1, 1, 4], data = [1, 0, 1, 0]\<rparr> \<lparr>shape = [1, 1, 4], data = [1, 0, 1, 0]\<rparr>
     \<lparr>shape = [1, 1, 4], data = [1, 0, 1, 0]\<rparr> NoneV =
     (Inl (NameError ''d_k''), scenario_block)"
    using scenario_forward_heads[of us] by (simp add: MultiHeadAttentionBlock_forward_def)
  show "\<exists>e. fst (MultiHeadAttentionBlock_forward g self us q k v mask_v) = Inl e"
    using MultiHeadAttentionBlock_forward_raises[of g self us q k v mask_v] by auto
  have a: "getattr scenario_block ''h'' = Inr (IntV 2)"
    "getattr scenario_block ''d_k'' = Inr (IntV 2)"
    by (simp_all add: getattr_def scenario_block_def)
  show "split_key scenario_block \<lparr>shape = [1, 2, 1, 2], data = [1, 2, 3, 4]\<rparr>
     \<lparr>shape = [1, 1, 4], data = [5, 6, 7, 8]\<rparr> =
     Inr \<lparr>shape = [1, 2, 1, 2], data = [1, 2, 3, 4]\<rparr>"
    using a
    by (simp add: split_key_def split_heads_def view_py_def tensor_view_def infer_size_def
        shape_at_def bindE_def transpose_t_def transpose_dims_def norm_dim_def swap_at_def
        upt_rec)
qed

section \<open>Claim C3: the sinusoidal table\<close>

text \<open>
  Claim C3 says that the constructor builds the table
  \<open>sin(pos / 10000^(2i/d_model))\<close>, \<open>cos(pos / 10000^(2i/d_model))\<close>. The code builds
  no table: every construction raises, for even \<open>d_model\<close> at the call of
  \<^verbatim>\<open>pe.unsqueece(0)\<close>. The local table it has filled by then multiplies the position
  by \<open>10000^(2i/d_model)\<close> instead of dividing: for \<open>d_model = 18\<close>, position 1 and
  \<open>i = 1\<close> the odd entry is \<open>cos(1 * 10000^(1/9))\<close>, which is negative, where the
  claimed \<open>cos(1 / 10000^(1/9))\<close> is positive.
\<close>

theorem PositionalEncoding_table_multiplies:
  "(\<exists>e. PositionalEncoding_init d_model seq_len dropout = Inl e) \<and>
   PositionalEncoding_init 18 2 dropout = Inl (AttributeError ''unsqueece'') \<and>
   (\<exists>t. pe_table 18 2 = Inr t \<and>
        data t ! (1 * 18 + 3) = cos (1 * exp (2 * (ln 10000 / 18))) \<and>
        data t ! (1 * 18 + 3) < 0 \<and>
        0 < cos (1 / (10000::real) powr (2 * 1 / 18)))"
proof (intro conjI)
  show "\<exists>e. PositionalEncoding_init d_model seq_len dropout = Inl e"
    by (rule PositionalEncoding_init_raises)
  define t where "t = \<lparr>shape = [2, 2 * 9],
          data = map (\<lambda>n.
              if odd (n mod (2 * 9))
              then cos (real (n div (2 * 9)) *
                        exp (real (n mod (2 * 9) - 1) * (ln 10000 / real_of_int 18)))
              else sin (real (n div (2 * 9)) *
                        exp (real (n mod (2 * 9)) * (ln 10000 / real_of_int 18))))
            [0..<2 * (2 * 9)]\<rparr>"
  have tab: "pe_table 18 2 = Inr t"
    unfolding t_def by (rule pe_table_even) simp_all
  show "PositionalEncoding_init 18 2 dropout = Inl (AttributeError ''unsqueece'')"
    by (simp add: PositionalEncoding_init_def tab unsqueece_missing bindE_def)
  define c :: real where "c = exp (2 * (ln 10000 / 18))"
  have cb: "2 \<le> c" "c < 3" using c_def by (rule root_bounds)+
  have el: "data t ! (1 * 18 + 3) = cos (1 * c)"
    by (simp add: t_def c_def)
  have neg: "data t ! (1 * 18 + 3) < 0"
    unfolding el using cb by (simp add: cos_neg_between)
  have pw: "(10000::real) powr (2 * 1 / 18) = c"
    by (simp add: powr_def c_def)
  have "0 < 1 / c" "1 / c < 1" using cb by simp_all
  then have "0 < cos (1 / c)" by (rule cos_pos_small)
  then have claimed: "0 < cos (1 / (10000::real) powr (2 * 1 / 18))" using pw by simp
  show "\<exists>t. pe_table 18 2 = Inr t \<and>
        data t ! (1 * 18 + 3) = cos (1 * exp (2 * (ln 10000 / 18))) \<and>
        data t ! (1 * 18 + 3) < 0 \<and>
        0 < cos (1 / (10000::real) powr (2 * 1 / 18))"
    using tab el neg claimed unfolding c_def by blast
qed

section \<open>Claim C4: what LayerNormalization computes\<close>

text \<open>
  Claim C4. Let the instance hold one-element parameters \<open>alpha = [a]\<close> and
  \<open>bias = [b]\<close> and the float \<open>eps = e\<close>, and let \<open>x\<close> be a tensor whose last
  dimension \<open>d\<close> is at least 2 and in which no innermost vector has \<open>std + eps = 0\<close>.
  Then \<^verbatim>\<open>forward(x)\<close> returns a tensor of the shape of \<open>x\<close> in which every
  innermost vector \<open>v\<close> of \<open>x\<close> (the \<open>r\<close>-th run of \<open>d\<close> consecutive elements) has
  become \<open>alpha * (v - mean) / (std + eps) + bias\<close>, elementwise, with \<open>mean\<close> the
  average of \<open>v\<close> and \<open>std\<close> its sample standard deviation (divisor \<open>d - 1\<close>):
  \<open>eps\<close> is added to the standard deviation, not to the variance under the root.
  The right-hand side is written with \<open>average\<close>, \<open>sample_std\<close> and
  \<open>layernorm_vec\<close>, which follow the specification's words. On a last dimension of
  one element, or where \<open>std + eps = 0\<close>, torch computes \<open>nan\<close> or \<open>inf\<close>, of which
  the real numbers say nothing: these inputs are excluded.
\<close>

theorem LayerNormalization_forward_formula:
  assumes alpha: "self ''alpha'' = Some (TensorV \<lparr>shape = [1], data = [a]\<rparr>)"
    and bias: "self ''bias'' = Some (TensorV \<lparr>shape = [1], data = [b]\<rparr>)"
    and eps: "self ''eps'' = Some (FloatV e)"
    and sh: "shape x = sh @ [d]"
    and wf: "length (data x) = prod_list (shape x)"
    and d2: "2 \<le> d"
    and nz: "\<And>r. r < prod_list sh \<Longrightarrow> sample_std (take d (drop (r * d) (data x))) + e \<noteq> 0"
  shows "\<exists>out. LayerNormalization_forward self x = Inr out \<and>
           shape out = shape x \<and> length (data out) = length (data x) \<and>
           (\<forall>r < prod_list sh.
              take d (drop (r * d) (data out)) =
              layernorm_vec a b e (take d (drop (r * d) (data x))))"
proof -
  define R where "R = prod_list sh"
  define row where "row r = take d (drop (r * d) (data x))" for r
  define g where "g n = a * (data x ! n - mean_vec (row (n div d))) /
                           (std_vec (row (n div d)) + e) + b" for n
  define out where "out = \<lparr>shape = shape x, data = map g [0..<R * d]\<rparr>"
  have len: "length (data x) = R * d" using wf sh by (simp add: R_def)
  have dpos: "0 < d" using d2 by simp
  have rl: "length (row r) = d" if "r < R" for r
    unfolding row_def using len that by (rule row_length)
  have st: "std_vec (row r) = sample_std (row r)" if "r < R" for r
    using rl[OF that] d2 by (intro sample_std_std_vec) simp
  have nz': "\<And>r. r < prod_list sh \<Longrightarrow> std_vec (take d (drop (r * d) (data x))) + e \<noteq> 0"
    using nz st by (simp add: R_def row_def)
  have run: "LayerNormalization_forward self x = Inr out"
    using LayerNormalization_forward_elems[OF alpha bias eps sh wf d2 nz'] sh
    by (simp add: out_def g_def row_def R_def)
  have rowout: "take d (drop (r * d) (data out)) = layernorm_vec a b e (row r)"
    if r: "r < R" for r
  proof (rule nth_equalityI)
    have lo: "length (data out) = R * d" by (simp add: out_def)
    show l: "length (take d (drop (r * d) (data out))) = length (layernorm_vec a b e (row r))"
      using row_length[OF lo r] rl[OF r] by (simp add: layernorm_vec_def)
    fix j assume "j < length (take d (drop (r * d) (data out)))"
    then have j: "j < d" using row_length[OF lo r] by simp
    have lt: "r * d + j < R * d"
    proof -
      have "r * d + j < r * d + d" using j by simp
      also have "\<dots> = Suc r * d" by simp
      also have "\<dots> \<le> R * d" using r by (intro mult_le_mono1) simp
      finally show ?thesis .
    qed
    have dv: "(r * d + j) div d = r" using j by simp
    have "take d (drop (r * d) (data out)) ! j = data out ! (r * d + j)"
      using lo r j by (rule row_nth)
    also have "\<dots> = g (r * d + j)" using lt by (simp add: out_def)
    also have "\<dots> = a * (row r ! j - average (row r)) / (sample_std (row r) + e) + b"
      using row_nth[OF len r j] st[OF r]
      by (simp add: g_def dv average_mean_vec row_def)
    also have "\<dots> = layernorm_vec a b e (row r) ! j"
      using j rl[OF r] by (simp add: layernorm_vec_def)
    finally show "take d (drop (r * d) (data out)) ! j = layernorm_vec a b e (row r) ! j" .
  qed
  have "shape out = shape x" by (simp add: out_def)
  moreover have "length (data out) = length (data x)" using len by (simp add: out_def)
  ultimately show ?thesis using run rowout by (auto simp: R_def row_def)
qed

theorem LayerNormalization_forward_formula_witness:
  "LayerNormalization_forward (LayerNormalization_init eps_default)
     \<lparr>shape = [2, 2], data = [1, 3, 2, 6]\<rparr> =
   Inr \<lparr>shape = [2, 2],
        data = [(1 - 2) / (sqrt 2 + eps_default), (3 - 2) / (sqrt 2 + eps_default),
                (2 - 4) / (sqrt 8 + eps_default), (6 - 4) / (sqrt 8 + eps_default)]\<rparr>"
proof -
  define x where "x = \<lparr>shape = [2, 2], data = [1, 3, 2, 6 :: real]\<rparr>"
  have ep: "0 < eps_default" by (simp add: eps_default_def)
  have av: "average [1, 3] = 2" "average [2, 6] = 4"
    by (simp_all add: average_def lessThan_Suc)
  have sd: "sample_std [1, 3] = sqrt 2" "sample_std [2, 6] = sqrt 8"
    by (simp_all add: sample_std_def av lessThan_Suc)
  have rw: "take 2 (drop (0 * 2) (data x)) = [1, 3]" "take 2 (drop (1 * 2) (data x)) = [2, 6]"
    by (simp_all add: x_def)
  have pos: "0 < sqrt 2 + eps_default" "0 < sqrt 8 + eps_default"
    using ep by (simp_all add: add_nonneg_pos)
  have nz: "sample_std (take 2 (drop (r * 2) (data x))) + eps_default \<noteq> 0"
    if "r < prod_list [2]" for r
  proof -
    have "r = 0 \<or> r = 1" using that by auto
    then show ?thesis
    proof
      assume "r = 0"
      then show ?thesis using pos(1) sd(1) rw(1) by simp
    next
      assume "r = 1"
      then show ?thesis using pos(2) sd(2) rw(2) by simp
    qed
  qed
  from LayerNormalization_forward_formula[where self="LayerNormalization_init eps_default"
      and a=1 and b=0 and e=eps_default and x=x and sh="[2]" and d=2, OF _ _ _ _ _ _ nz]
  obtain out where run: "LayerNormalization_forward (LayerNormalization_init eps_default) x = Inr out"
    and so: "shape out = shape x" and lo: "length (data out) = length (data x)"
    and ro: "\<forall>r < prod_list [2].
       take 2 (drop (r * 2) (data out)) = layernorm_vec 1 0 eps_default (take 2 (drop (r * 2) (data x)))"
    by (auto simp: LayerNormalization_init_def x_def)
  have r0: "take 2 (data out) = layernorm_vec 1 0 eps_default [1, 3]"
    using ro[rule_format, of 0] rw by simp
  have r1: "take 2 (drop 2 (data out)) = layernorm_vec 1 0 eps_default [2, 6]"
    using ro[rule_format, of 1] rw by simp
  have l4: "length (data out) = 4" using lo by (simp add: x_def)
  have "data out = take 2 (data out) @ take 2 (drop 2 (data out))"
    using l4 by (metis append_take_drop_id take_all_iff length_drop diff_le_self
        add_diff_cancel_left' numeral_Bit0 order_refl)
  then have "data out = [(1 - 2) / (sqrt 2 + eps_default), (3 - 2) / (sqrt 2 + eps_default),
                (2 - 4) / (sqrt 8 + eps_default), (6 - 4) / (sqrt 8 + eps_default)]"
    unfolding r0 r1 by (simp add: layernorm_vec_def av sd)
  then have "out = \<lparr>shape = [2, 2],
        data = [(1 - 2) / (sqrt 2 + eps_default), (3 - 2) / (sqrt 2 + eps_default),
                (2 - 4) / (sqrt 8 + eps_default), (6 - 4) / (sqrt 8 + eps_default)]\<rparr>"
    using so by (simp add: x_def)
  then show ?thesis using run by (simp add: x_def)
qed

section \<open>Claim C5: splitting into heads and recombining\<close>

text \<open>
  Claim C5 says that splitting a tensor of shape \<open>(batch, seq_len, d_model)\<close> into
  \<open>h\<close> heads and recombining the heads gives the tensor back. In \<^verbatim>\<open>forward\<close> the
  split of the projected query (line 249) never returns: on the instance with
  \<open>d_model = 4\<close>, \<open>h = 2\<close>, identity weights, and the tensor of shape \<open>(1, 2, 4)\<close>
  holding 1 to 8 it raises \<open>NameError: d_k\<close>, and so does the part of \<^verbatim>\<open>forward\<close>
  that precedes the recombination of line 256; for every namespace, instance and
  tensor the split raises, so no split tensor is ever handed to the recombination.
\<close>

theorem head_split_never_reaches_recombination:
  "split_query notebook_globals scenario_block
     \<lparr>shape = [1, 2, 4], data = [1, 2, 3, 4, 5, 6, 7, 8]\<rparr> = Inl (NameError ''d_k'') \<and>
   forward_heads notebook_globals scenario_block us
     \<lparr>shape = [1, 2, 4], data = [1, 2, 3, 4, 5, 6, 7, 8]\<rparr>
     \<lparr>shape = [1, 2, 4], data = [1, 2, 3, 4, 5, 6, 7, 8]\<rparr>
     \<lparr>shape = [1, 2, 4], data = [1, 2, 3, 4, 5, 6, 7, 8]\<rparr> NoneV = Inl (NameError ''d_k'') \<and>
   (\<exists>e. split_query g self query = Inl e) \<and>
   (\<exists>e. forward_heads g self us' q k v mask_v = Inl e)"
proof (intro conjI)
  have a: "getattr scenario_block ''w_q'' = Inr (LinearV \<lparr>shape = [4, 4], data = [1,0,0,0, 0,1,0,0, 0,0,1,0, 0,0,0,1]\<rparr>
                  \<lparr>shape = [4], data = [0, 0, 0, 0]\<rparr>)"
    "getattr scenario_block ''w_k'' = Inr (LinearV \<lparr>shape = [4, 4], data = [1,0,0,0, 0,1,0,0, 0,0,1,0, 0,0,0,1]\<rparr>
                  \<lparr>shape = [4], data = [0, 0, 0, 0]\<rparr>)"
    "getattr scenario_block ''w_v'' = Inr (LinearV \<lparr>shape = [4, 4], data = [1,0,0,0, 0,1,0,0, 0,0,1,0, 0,0,0,1]\<rparr>
                  \<lparr>shape = [4], data = [0, 0, 0, 0]\<rparr>)"
    "getattr scenario_block ''h'' = Inr (IntV 2)"
    by (simp_all add: getattr_def scenario_block_def)
  show q: "split_query notebook_globals scenario_block
     \<lparr>shape = [1, 2, 4], data = [1, 2, 3, 4, 5, 6, 7, 8]\<rparr> = Inl (NameError ''d_k'')"
    using a lookup_d_k by (simp add: split_query_def shape_at_def bindE_def)
  have p: "call_module (LinearV \<lparr>shape = [4, 4], data = [1,0,0,0, 0,1,0,0, 0,0,1,0, 0,0,0,1]\<rparr>
                  \<lparr>shape = [4], data = [0, 0, 0, 0]\<rparr>) us
     \<lparr>shape = [1, 2, 4], data = [1, 2, 3, 4, 5, 6, 7, 8]\<rparr> =
   Inr \<lparr>shape = [1, 2, 4], data = [1, 2, 3, 4, 5, 6, 7, 8]\<rparr>"
    by (simp add: call_module_def tensor_eval upt_rec)
  show "forward_heads notebook_globals scenario_block us
     \<lparr>shape = [1, 2, 4], data = [1, 2, 3, 4, 5, 6, 7, 8]\<rparr>
     \<lparr>shape = [1, 2, 4], data = [1, 2, 3, 4, 5, 6, 7, 8]\<rparr>
     \<lparr>shape = [1, 2, 4], data = [1, 2, 3, 4, 5, 6, 7, 8]\<rparr> NoneV = Inl (NameError ''d_k'')"
    using a p q by (simp add: forward_heads_def bindE_def)
  show "\<exists>e. split_query g self query = Inl e" by (rule split_query_raises)
  show "\<exists>e. forward_heads g self us' q k v mask_v = Inl e" by (rule forward_heads_raises)
qed

section \<open>Claim C6: the residual connection normalises first\<close>

text \<open>
  Claim C6. For a ResidualConnection whose attributes are an \<^verbatim>\<open>nn.Dropout\<close> of rate
  \<open>p\<close> and a LayerNormalization, for every input \<open>x\<close> and every sublayer,
  \<^verbatim>\<open>forward(x, sublayer)\<close> is \<open>x + dropout(sublayer(layernorm(x)))\<close>: the
  normalisation is applied before the sublayer, dropout after it, and \<open>x\<close> is added
  last, element by element when the sublayer keeps the shape. In particular, with
  dropout rate 0 (the samples lie in \<open>[0, 1)\<close>) and the identity sublayer, whenever
  the normalisation of \<open>x\<close> returns a tensor \<open>y\<close> of the shape of \<open>x\<close>, the result
  is \<open>x + y\<close>, that is \<open>x + layernorm(x)\<close>, element by element.
\<close>

theorem ResidualConnection_forward_prenorm:
  assumes dr: "self ''dropout'' = Some (DropoutV p training)"
    and no: "self ''norm'' = Some (ObjV ''LayerNormalization'' norm_attrs)"
  shows "ResidualConnection_forward self us x sublayer =
           residual_spec norm_attrs p training us sublayer x \<and>
         (LayerNormalization_forward norm_attrs x = Inr y \<and> sublayer y = Inr s \<and>
          shape s = shape x \<longrightarrow>
          ResidualConnection_forward self us x sublayer =
            Inr \<lparr>shape = shape x,
                 data = map (\<lambda>n. data x ! n + data (F_dropout p training us s) ! n)
                          [0..<prod_list (shape x)]\<rparr>) \<and>
         (p = 0 \<and> (\<forall>i. us i < 1) \<and>
          LayerNormalization_forward norm_attrs x = Inr y \<and> shape y = shape x \<longrightarrow>
          ResidualConnection_forward self us x Inr =
            Inr \<lparr>shape = shape x,
                 data = map (\<lambda>n. data x ! n + data y ! n) [0..<prod_list (shape x)]\<rparr>)"
proof -
  have gen: "\<And>f. ResidualConnection_forward self us x f =
           residual_spec norm_attrs p training us f x"
    using dr no
    by (simp add: ResidualConnection_forward_def residual_spec_def getattr_def bindE_def
        call_module_def split: sum.splits)
  have elem: "ResidualConnection_forward self us x f =
            Inr \<lparr>shape = shape x,
                 data = map (\<lambda>n. data x ! n + data (F_dropout p training us s) ! n)
                          [0..<prod_list (shape x)]\<rparr>"
    if ly: "LayerNormalization_forward norm_attrs x = Inr y" and su: "f y = Inr s"
      and ss: "shape s = shape x" for f s
  proof -
    have "shape (F_dropout p training us s) = shape x"
      using ss by (simp add: F_dropout_def)
    then have "tensor_binop (+) x (F_dropout p training us s) =
        Inr \<lparr>shape = shape x,
             data = map (\<lambda>n. data x ! n + data (F_dropout p training us s) ! n)
                      [0..<prod_list (shape x)]\<rparr>"
      by (intro binop_same) simp_all
    then show ?thesis
      unfolding gen by (simp add: residual_spec_def ly su bindE_def)
  qed
  have part: "ResidualConnection_forward self us x Inr =
            Inr \<lparr>shape = shape x,
                 data = map (\<lambda>n. data x ! n + data y ! n) [0..<prod_list (shape x)]\<rparr>"
    if p0: "p = 0" and us: "\<forall>i. us i < 1"
      and ly: "LayerNormalization_forward norm_attrs x = Inr y" and sy: "shape y = shape x"
  proof -
    have dz: "F_dropout p training us y = y"
      unfolding p0 using us by (intro F_dropout_rate_zero) simp
    show ?thesis using elem[of Inr y, OF ly _ sy] by (simp add: dz)
  qed
  show ?thesis using gen elem[of sublayer s] part by blast
qed

theorem ResidualConnection_forward_prenorm_witness:
  "ResidualConnection_init 0 =
     Inr [''dropout'' \<mapsto> DropoutV 0 True,
          ''norm'' \<mapsto> ObjV ''LayerNormalization'' (LayerNormalization_init eps_default)] \<and>
   LayerNormalization_forward (LayerNormalization_init eps_default)
     \<lparr>shape = [2, 2], data = [1, 3, 2, 6]\<rparr> =
     Inr \<lparr>shape = [2, 2],
          data = [(1 - 2) / (sqrt 2 + eps_default), (3 - 2) / (sqrt 2 + eps_default),
                  (2 - 4) / (sqrt 8 + eps_default), (6 - 4) / (sqrt 8 + eps_default)]\<rparr> \<and>
   ResidualConnection_forward
     [''dropout'' \<mapsto> DropoutV 0 True,
      ''norm'' \<mapsto> ObjV ''LayerNormalization'' (LayerNormalization_init eps_default)]
     (\<lambda>i. 0) \<lparr>shape = [2, 2], data = [1, 3, 2, 6]\<rparr> Inr =
     Inr \<lparr>shape = [2, 2],
          data = [1 + (1 - 2) / (sqrt 2 + eps_default), 3 + (3 - 2) / (sqrt 2 + eps_default),
                  2 + (2 - 4) / (sqrt 8 + eps_default), 6 + (6 - 4) / (sqrt 8 + eps_default)]\<rparr> \<and>
   ResidualConnection_forward
     [''dropout'' \<mapsto> DropoutV 0 True,
      ''norm'' \<mapsto> ObjV ''LayerNormalization'' (LayerNormalization_init eps_default)]
     (\<lambda>i. 0) \<lparr>shape = [2, 2], data = [1, 3, 2, 6]\<rparr> Inr =
     residual_spec (LayerNormalization_init eps_default) 0 True (\<lambda>i. 0) Inr
       \<lparr>shape = [2, 2], data = [1, 3, 2, 6]\<rparr>"
proof -
  define self where "self = [''dropout'' \<mapsto> DropoutV 0 True,
      ''norm'' \<mapsto> ObjV ''LayerNormalization'' (LayerNormalization_init eps_default)]"
  define x where "x = \<lparr>shape = [2, 2], data = [1, 3, 2, 6 :: real]\<rparr>"
  define y where "y = \<lparr>shape = [2, 2],
          data = [(1 - 2) / (sqrt 2 + eps_default), (3 - 2) / (sqrt 2 + eps_default),
                  (2 - 4) / (sqrt 8 + eps_default), (6 - 4) / (sqrt 8 + eps_default)]\<rparr>"
  have i: "ResidualConnection_init 0 = Inr self"
    by (simp add: ResidualConnection_init_def nn_Dropout_def bindE_def self_def)
  have d: "self ''dropout'' = Some (DropoutV 0 True)" by (simp add: self_def)
  have n: "self ''norm'' = Some (ObjV ''LayerNormalization'' (LayerNormalization_init eps_default))"
    by (simp add: self_def)
  have ep: "0 < eps_default" by (simp add: eps_default_def)
  have m: "mean_vec [1, 3] = 2" "mean_vec [2, 6] = 4" by (simp_all add: mean_vec_def)
  have sd: "std_vec [1, 3] = sqrt 2" "std_vec [2, 6] = sqrt 8" by (simp_all add: std_vec_def m)
  have rw: "take 2 (drop (0 * 2) (data x)) = [1, 3]" "take 2 (drop (1 * 2) (data x)) = [2, 6]"
    by (simp_all add: x_def)
  have pos: "0 < sqrt 2 + eps_default" "0 < sqrt 8 + eps_default"
    using ep by (simp_all add: add_nonneg_pos)
  have nz: "std_vec (take 2 (drop (r * 2) (data x))) + eps_default \<noteq> 0"
    if "r < prod_list [2]" for r
  proof -
    have "r = 0 \<or> r = 1" using that by auto
    then show ?thesis
    proof
      assume "r = 0"
      then show ?thesis using pos(1) sd(1) rw(1) by simp
    next
      assume "r = 1"
      then show ?thesis using pos(2) sd(2) rw(2) by simp
    qed
  qed
  have u: "[0..<prod_list (shape x)] = [0, 1, 2, 3]" by (simp add: x_def upt_rec)
  have dv: "(0::nat) div 2 * 2 = 0" "(1::nat) div 2 * 2 = 0" "(2::nat) div 2 * 2 = 2"
    "(3::nat) div 2 * 2 = 2" by simp_all
  have "LayerNormalization_forward (LayerNormalization_init eps_default) x =
     Inr \<lparr>shape = shape x,
          data = map (\<lambda>n. 1 * (data x ! n - mean_vec (take 2 (drop (n div 2 * 2) (data x)))) /
                           (std_vec (take 2 (drop (n div 2 * 2) (data x))) + eps_default) + 0)
                   [0..<prod_list (shape x)]\<rparr>"
    by (rule LayerNormalization_forward_elems[where sh="[2]" and d=2, OF _ _ _ _ _ _ nz])
      (simp_all add: LayerNormalization_init_def x_def)
  then have ly: "LayerNormalization_forward (LayerNormalization_init eps_default) x = Inr y"
    unfolding u using m sd by (simp add: x_def y_def)
  have sy: "shape y = shape x" by (simp add: x_def y_def)
  have pre: "(0::real) = 0 \<and> (\<forall>i::nat. (0::real) < 1)" by simp
  from ResidualConnection_forward_prenorm[OF d n, where us="\<lambda>i. 0" and x=x and sublayer=Inr
      and y=y and s=y] ly sy pre
  have gen: "ResidualConnection_forward self (\<lambda>i. 0) x Inr =
      residual_spec (LayerNormalization_init eps_default) 0 True (\<lambda>i. 0) Inr x"
    and el: "ResidualConnection_forward self (\<lambda>i. 0) x Inr =
      Inr \<lparr>shape = shape x,
           data = map (\<lambda>n. data x ! n + data (F_dropout 0 True (\<lambda>i. 0) y) ! n)
                    [0..<prod_list (shape x)]\<rparr>"
    and pa: "ResidualConnection_forward self (\<lambda>i. 0) x Inr =
      Inr \<lparr>shape = shape x, data = map (\<lambda>n. data x ! n + data y ! n) [0..<prod_list (shape x)]\<rparr>"
    by blast+
  have res: "ResidualConnection_forward self (\<lambda>i. 0) x Inr =
     Inr \<lparr>shape = [2, 2],
          data = [1 + (1 - 2) / (sqrt 2 + eps_default), 3 + (3 - 2) / (sqrt 2 + eps_default),
                  2 + (2 - 4) / (sqrt 8 + eps_default), 6 + (6 - 4) / (sqrt 8 + eps_default)]\<rparr>"
    using pa unfolding u by (simp add: x_def y_def)
  show ?thesis using i ly res gen unfolding self_def x_def y_def by simp
qed

section \<open>Claim C7: the feed-forward block\<close>

text \<open>
  Claim C7 says that \<^verbatim>\<open>FeedForwardBlock.forward\<close> returns
  \<open>dropout(max(0, x W1 + b1)) W2 + b2\<close>, all zeros for zero weights. The constructor
  stores its layers as \<^verbatim>\<open>Linear_1\<close> and \<^verbatim>\<open>Linear_2\<close>, and \<^verbatim>\<open>forward\<close> reads
  \<^verbatim>\<open>self.linear_2\<close>: on every constructed instance and every input the call raises
  \<open>AttributeError: linear_2\<close>; so it does with all weights and biases zero.
\<close>

theorem FeedForwardBlock_forward_raises:
  "(\<exists>e. bindE (FeedForwardBlock_init ini d_model d_ff dropout)
           (\<lambda>self. FeedForwardBlock_forward self us x) = Inl e) \<and>
   bindE (FeedForwardBlock_init (\<lambda>name n. 0) 2 3 0)
     (\<lambda>self. FeedForwardBlock_forward self us x) = Inl (AttributeError ''linear_2'')"
proof (intro conjI)
  have r: "FeedForwardBlock_forward self us x = Inl (AttributeError ''linear_2'')"
    if "FeedForwardBlock_init ini d_model d_ff dropout = Inr self" for self ini d_model d_ff dropout
  proof -
    have "self ''linear_2'' = None" using that
      by (auto simp: FeedForwardBlock_init_def nn_Linear_def nn_Dropout_def bindE_def
          split: if_splits)
    then show ?thesis by (simp add: FeedForwardBlock_forward_def getattr_def bindE_def)
  qed
  show "\<exists>e. bindE (FeedForwardBlock_init ini d_model d_ff dropout)
           (\<lambda>self. FeedForwardBlock_forward self us x) = Inl e"
    by (intro bindE_raisesI) (simp add: r)
  have "\<exists>self. FeedForwardBlock_init (\<lambda>name n. 0) 2 3 0 = Inr self"
    by (simp add: FeedForwardBlock_init_def nn_Linear_def nn_Dropout_def bindE_def)
  then obtain self where i: "FeedForwardBlock_init (\<lambda>name n. 0) 2 3 0 = Inr self" by blast
  show "bindE (FeedForwardBlock_init (\<lambda>name n. 0) 2 3 0)
     (\<lambda>self. FeedForwardBlock_forward self us x) = Inl (AttributeError ''linear_2'')"
    using r[OF i] i by (simp add: bindE_def)
qed

section \<open>Claim C8: PositionalEncoding.forward\<close>

text \<open>
  Claim C8 says that \<^verbatim>\<open>PositionalEncoding.forward\<close> returns dropout of the input plus
  the first \<open>seq_len\<close> rows of the table. No instance can be constructed, and on any
  instance whose \<^verbatim>\<open>dropout\<close> attribute is the float that line 80 stores, the call
  ends in an exception: with a table of the right shape it is the TypeError of calling
  a float.
\<close>

theorem PositionalEncoding_forward_raises:
  "(\<exists>e. PositionalEncoding_init d_model seq_len dropout = Inl e) \<and>
   (\<exists>e. PositionalEncoding_forward (self(''dropout'' \<mapsto> FloatV dropout)) us x = Inl e) \<and>
   PositionalEncoding_forward
     [''d_model'' \<mapsto> IntV 2, ''seq_len'' \<mapsto> IntV 1, ''dropout'' \<mapsto> FloatV 0,
      ''pe'' \<mapsto> TensorV \<lparr>shape = [1, 1, 2], data = [0, 1]\<rparr>]
     us \<lparr>shape = [1, 1, 2], data = [1, 2]\<rparr> = Inl (TypeError ''object is not callable'')"
proof (intro conjI)
  show "\<exists>e. PositionalEncoding_init d_model seq_len dropout = Inl e"
    by (rule PositionalEncoding_init_raises)
  have "getattr (self(''dropout'' \<mapsto> FloatV dropout)) ''dropout'' = Inr (FloatV dropout)"
    by (simp add: getattr_def)
  then show "\<exists>e. PositionalEncoding_forward (self(''dropout'' \<mapsto> FloatV dropout)) us x = Inl e"
    unfolding PositionalEncoding_forward_def
    by (intro bindE_raisesI) (simp add: call_module_def)
  show "PositionalEncoding_forward
     [''d_model'' \<mapsto> IntV 2, ''seq_len'' \<mapsto> IntV 1, ''dropout'' \<mapsto> FloatV 0,
      ''pe'' \<mapsto> TensorV \<lparr>shape = [1, 1, 2], data = [0, 1]\<rparr>]
     us \<lparr>shape = [1, 1, 2], data = [1, 2]\<rparr> = Inl (TypeError ''object is not callable'')"
    by (simp add: PositionalEncoding_forward_def getattr_def shape_at_def slice_dim1_def
        call_module_def tensor_binop_def broadcast_shapes_def bindE_def)
qed

section \<open>Claim C9: divisibility at construction\<close>

text \<open>
  Claim C9. The constructor raises when \<open>h\<close> does not divide \<open>d_model\<close>
  (ZeroDivisionError for \<open>h = 0\<close>, AssertionError otherwise), so no instance with a
  non-divisible pair exists; every constructed instance has \<open>h \<noteq> 0\<close>,
  \<open>d_model mod h = 0\<close> and the attribute \<open>d_k = d_model div h\<close>, hence
  \<open>d_k * h = d_model\<close>; and a call of \<^verbatim>\<open>forward\<close> leaves \<open>d_k\<close> as the constructor set
  it.
\<close>

theorem MultiHeadAttentionBlock_init_divisibility:
  "(h = 0 \<longrightarrow> MultiHeadAttentionBlock_init ini d_model h dropout =
       Inl (ZeroDivisionError ''integer modulo by zero'')) \<and>
   (h \<noteq> 0 \<and> d_model mod h \<noteq> 0 \<longrightarrow> MultiHeadAttentionBlock_init ini d_model h dropout =
       Inl (AssertionError ''d_model is not divisible by h'')) \<and>
   (MultiHeadAttentionBlock_init ini d_model h dropout = Inr self \<longrightarrow>
       h \<noteq> 0 \<and> d_model mod h = 0 \<and>
       self ''d_model'' = Some (IntV d_model) \<and> self ''h'' = Some (IntV h) \<and>
       self ''d_k'' = Some (IntV (d_model div h)) \<and> (d_model div h) * h = d_model \<and>
       snd (MultiHeadAttentionBlock_forward g self us q k v mask_v) ''d_k'' =
         Some (IntV (d_model div h)))"
proof (intro conjI impI)
  assume "h = 0"
  then show "MultiHeadAttentionBlock_init ini d_model h dropout =
       Inl (ZeroDivisionError ''integer modulo by zero'')"
    by (simp add: MultiHeadAttentionBlock_init_def)
next
  assume "h \<noteq> 0 \<and> d_model mod h \<noteq> 0"
  then show "MultiHeadAttentionBlock_init ini d_model h dropout =
       Inl (AssertionError ''d_model is not divisible by h'')"
    by (simp add: MultiHeadAttentionBlock_init_def)
next
  assume i: "MultiHeadAttentionBlock_init ini d_model h dropout = Inr self"
  show "h \<noteq> 0" "d_model mod h = 0" "self ''d_model'' = Some (IntV d_model)"
    "self ''h'' = Some (IntV h)" "self ''d_k'' = Some (IntV (d_model div h))"
    using i by (rule MultiHeadAttentionBlock_init_attrs)+
  have "d_model mod h = 0" using i by (rule MultiHeadAttentionBlock_init_attrs)
  then show "(d_model div h) * h = d_model" by auto
  have k: "self ''d_k'' = Some (IntV (d_model div h))"
    using i by (rule MultiHeadAttentionBlock_init_attrs)
  obtain e where "MultiHeadAttentionBlock_forward g self us q k v mask_v = (Inl e, self)"
    using MultiHeadAttentionBlock_forward_raises by blast
  then show "snd (MultiHeadAttentionBlock_forward g self us q k v mask_v) ''d_k'' =
         Some (IntV (d_model div h))" using k by simp
qed

theorem MultiHeadAttentionBlock_init_divisibility_witness:
  "MultiHeadAttentionBlock_init (\<lambda>n i. 0) 4 0 0 = Inl (ZeroDivisionError ''integer modulo by zero'') \<and>
   MultiHeadAttentionBlock_init (\<lambda>n i. 0) 4 3 0 = Inl (AssertionError ''d_model is not divisible by h'') \<and>
   (\<exists>self. MultiHeadAttentionBlock_init (\<lambda>n i. 0) 4 2 0 = Inr self \<and>
      self ''d_k'' = Some (IntV 2) \<and>
      snd (MultiHeadAttentionBlock_forward notebook_globals self (\<lambda>i. 0)
             \<lparr>shape = [1, 1, 4], data = [1, 0, 1, 0]\<rparr>
             \<lparr>shape = [1, 1, 4], data = [1, 0, 1, 0]\<rparr>
             \<lparr>shape = [1, 1, 4], data = [1, 0, 1, 0]\<rparr> NoneV) ''d_k'' = Some (IntV 2))"
proof -
  obtain self where i: "MultiHeadAttentionBlock_init (\<lambda>n i. 0) 4 2 0 = Inr self"
    by (simp add: MultiHeadAttentionBlock_init_def nn_Linear_def nn_Dropout_def bindE_def)
  have z: "MultiHeadAttentionBlock_init (\<lambda>n i. 0) 4 0 0 =
      Inl (ZeroDivisionError ''integer modulo by zero'')"
    using MultiHeadAttentionBlock_init_divisibility[of 0 "\<lambda>n i. 0" 4 0] by simp
  have a: "MultiHeadAttentionBlock_init (\<lambda>n i. 0) 4 3 0 =
      Inl (AssertionError ''d_model is not divisible by h'')"
    using MultiHeadAttentionBlock_init_divisibility[of 3 "\<lambda>n i. 0" 4 0] by simp
  have "self ''d_k'' = Some (IntV 2) \<and>
      snd (MultiHeadAttentionBlock_forward notebook_globals self (\<lambda>i. 0)
             \<lparr>shape = [1, 1, 4], data = [1, 0, 1, 0]\<rparr>
             \<lparr>shape = [1, 1, 4], data = [1, 0, 1, 0]\<rparr>
             \<lparr>shape = [1, 1, 4], data = [1, 0, 1, 0]\<rparr> NoneV) ''d_k'' = Some (IntV 2)"
    using MultiHeadAttentionBlock_init_divisibility[of 2 "\<lambda>n i. 0" 4 0 self notebook_globals
        "\<lambda>i. 0" "\<lparr>shape = [1, 1, 4], data = [1, 0, 1, 0]\<rparr>" "\<lparr>shape = [1, 1, 4], data = [1, 0, 1, 0]\<rparr>"
        "\<lparr>shape = [1, 1, 4], data = [1, 0, 1, 0]\<rparr>" NoneV] i
    by simp
  then show ?thesis using i z a by blast
qed

section \<open>Claim C10: the stored attention scores\<close>

text \<open>
  Claim C10 says that every call of \<^verbatim>\<open>forward\<close> stores the attention probabilities in
  \<^verbatim>\<open>self.attention_scores\<close>. No call does: \<^verbatim>\<open>forward\<close> raises before line 254 is
  reached, for every instance, namespace and input, and leaves the instance as it
  was; on the specification's scenario the attribute \<^verbatim>\<open>attention_scores\<close> does not
  exist before the call nor after it.
\<close>

theorem forward_leaves_instance_unchanged:
  "snd (MultiHeadAttentionBlock_forward g self us q k v mask_v) = self \<and>
   (\<exists>e. fst (MultiHeadAttentionBlock_forward g self us q k v mask_v) = Inl e) \<and>
   scenario_block ''attention_scores'' = None \<and>
   snd (MultiHeadAttentionBlock_forward notebook_globals scenario_block us
     \<lparr>shape = [1, 1, 4], data = [1, 0, 1, 0]\<rparr> \<lparr>shape = [1, 1, 4], data = [1, 0, 1, 0]\<rparr>
     \<lparr>shape = [1, 1, 4], data = [1, 0, 1, 0]\<rparr> NoneV) ''attention_scores'' = None"
proof -
  have g: "\<And>g self us q k v mask_v.
     snd (MultiHeadAttentionBlock_forward g self us q k v mask_v) = self \<and>
     (\<exists>e. fst (MultiHeadAttentionBlock_forward g self us q k v mask_v) = Inl e)"
  proof -
    fix g self us q k v mask_v
    obtain e where "MultiHeadAttentionBlock_forward g self us q k v mask_v = (Inl e, self)"
      using MultiHeadAttentionBlock_forward_raises by blast
    then show "snd (MultiHeadAttentionBlock_forward g self us q k v mask_v) = self \<and>
     (\<exists>e. fst (MultiHeadAttentionBlock_forward g self us q k v mask_v) = Inl e)" by simp
  qed
  have n: "scenario_block ''attention_scores'' = None" by (simp add: scenario_block_def)
  show ?thesis using g n by simp
qed

end
